theory Spec2Isabelle
  imports Complex_Main "HOL-Library.Multiset" "HOL-Library.Sublist"
begin

section \<open>Python values and built-ins used by the scorer\<close>

text \<open>
  The scorer (\<^verbatim>\<open>app/components/resume_matcher.py\<close>) is written over Python strings, lists,
  dictionaries and floats. Strings are modelled as \<^typ>\<open>string\<close> (the texts are taken to be
  ASCII: \<^verbatim>\<open>str.lower\<close> changes the letters A to Z only), lists as HOL lists, and a Python
  float as an exact \<^typ>\<open>real\<close>: the arithmetic of the model is the arithmetic the formulas of
  the source denote, without the binary rounding of IEEE doubles.
\<close>

definition lower_char :: "char \<Rightarrow> char" where
  "lower_char c =
     (case map_of (zip ''ABCDEFGHIJKLMNOPQRSTUVWXYZ'' ''abcdefghijklmnopqrstuvwxyz'') c of
        Some d \<Rightarrow> d
      | None \<Rightarrow> c)"

definition lower :: "string \<Rightarrow> string" where
  \<comment> \<open>\<^verbatim>\<open>s.lower()\<close>\<close>
  "lower s = map lower_char s"

fun starts_with :: "string \<Rightarrow> string \<Rightarrow> bool" where
  \<comment> \<open>\<^verbatim>\<open>s.startswith(a)\<close>, written \<open>starts_with a s\<close>\<close>
  "starts_with [] s = True"
| "starts_with (a # as) [] = False"
| "starts_with (a # as) (c # cs) = (a = c \<and> starts_with as cs)"

fun str_in :: "string \<Rightarrow> string \<Rightarrow> bool" where
  \<comment> \<open>\<^verbatim>\<open>a in s\<close> for two strings: \<open>a\<close> occurs in \<open>s\<close> as a contiguous substring\<close>
  "str_in a [] = (a = [])"
| "str_in a (c # cs) = (starts_with a (c # cs) \<or> str_in a cs)"

definition round_half_even :: "real \<Rightarrow> int" where
  "round_half_even x =
     (let f = \<lfloor>x\<rfloor>; d = x - of_int f
      in if d < 1 / 2 then f else if 1 / 2 < d then f + 1 else if even f then f else f + 1)"

definition py_round :: "real \<Rightarrow> nat \<Rightarrow> real" where
  \<comment> \<open>\<^verbatim>\<open>round(x, n)\<close>: to \<open>n\<close> decimals, a tie going to the even neighbour\<close>
  "py_round x n = of_int (round_half_even (x * 10 ^ n)) / 10 ^ n"

type_synonym config = "string \<rightharpoonup> real"

definition default_config :: config where
  "default_config =
     [''skill_weight'' \<mapsto> 0.5, ''priority_skill_bonus'' \<mapsto> 2.0,
      ''experience_weight'' \<mapsto> 0.3, ''education_weight'' \<mapsto> 0.2,
      ''skill_match_threshold'' \<mapsto> 0.7]"

definition config_get :: "config \<Rightarrow> string \<Rightarrow> real \<Rightarrow> real" where
  \<comment> \<open>\<^verbatim>\<open>config.get(key, default)\<close>\<close>
  "config_get cfg k d = (case cfg k of Some v \<Rightarrow> v | None \<Rightarrow> d)"

section \<open>Result records\<close>

text \<open>
  Every analysis the scorer returns is a dictionary with a \<^verbatim>\<open>score\<close> entry. The
  human-readable \<^verbatim>\<open>details\<close> strings are left out of the records: no score depends on them.
\<close>

record scored =
  score :: real

record skill_analysis = scored +
  matched_skills :: "string list"
  missing_skills :: "string list"
  priority_matched :: "string list"
  priority_missing :: "string list"
  skill_match_percentage :: real

section \<open>Skill match\<close>

definition skill_found :: "string list \<Rightarrow> string \<Rightarrow> bool" where
  \<comment> \<open>the test of the loop over \<^verbatim>\<open>job_skills\<close>:
     \<^verbatim>\<open>skill_lower in resume_skills_lower or any(skill_lower in rs for rs in resume_skills_lower)\<close>\<close>
  "skill_found resume_skills_lower skill =
     (let skill_lower = lower skill
      in skill_lower \<in> set resume_skills_lower \<or> list_ex (str_in skill_lower) resume_skills_lower)"

definition split_skills :: "string list \<Rightarrow> string list \<Rightarrow> string list \<times> string list" where
  \<comment> \<open>the loop itself: each job skill is appended to \<^verbatim>\<open>matched_skills\<close> or to
     \<^verbatim>\<open>missing_skills\<close>\<close>
  "split_skills resume_skills_lower job_skills =
     foldl (\<lambda>(matched, missing) skill.
              if skill_found resume_skills_lower skill then (matched @ [skill], missing)
              else (matched, missing @ [skill]))
           ([], []) job_skills"

definition calculate_skill_match ::
  "string list \<Rightarrow> string list \<Rightarrow> string list \<Rightarrow> config \<Rightarrow> skill_analysis" where
  "calculate_skill_match resume_skills job_skills priority_skills cfg =
     (if job_skills = [] then
        \<lparr>score = 1, matched_skills = [], missing_skills = [], priority_matched = [],
         priority_missing = [], skill_match_percentage = 100\<rparr>
      else
        let resume_skills_lower = map lower resume_skills;
            (matched, missing) = split_skills resume_skills_lower job_skills;
            prio_matched = filter (\<lambda>skill. lower skill \<in> set resume_skills_lower) priority_skills;
            prio_missing = filter (\<lambda>skill. lower skill \<notin> set resume_skills_lower) priority_skills;
            total_skills = length job_skills;
            matched_count = length matched;
            match_percentage =
              (if total_skills > 0 then real matched_count / real total_skills * 100 else 100);
            priority_bonus = config_get cfg ''priority_skill_bonus'' 2.0;
            priority_match_score =
              (if priority_skills \<noteq> [] then
                 real (length prio_matched) / real (length priority_skills) * priority_bonus
               else 0);
            base_score = (if total_skills > 0 then real matched_count / real total_skills else 1);
            priority_weight =
              (if total_skills > 0 then real (length priority_skills) / real total_skills else 0);
            skill_score = base_score * (1 - priority_weight) + priority_match_score * priority_weight;
            skill_score = min 1 skill_score
        in \<lparr>score = py_round skill_score 2, matched_skills = matched, missing_skills = missing,
            priority_matched = prio_matched, priority_missing = prio_missing,
            skill_match_percentage = py_round match_percentage 1\<rparr>)"

subsection \<open>The legacy scorer of \<^verbatim>\<open>app/utils/text_analysis.py\<close>\<close>

definition calculate_skill_match_score :: "string list \<Rightarrow> string list \<Rightarrow> real" where
  "calculate_skill_match_score job_skills resume_skills =
     (if job_skills = [] then 0
      else
        let job_skills_set = set (map lower job_skills);
            resume_skills_set = set (map lower resume_skills);
            matching_skills = job_skills_set \<inter> resume_skills_set
        in real (card matching_skills) / real (card job_skills_set))"

section \<open>Degree match\<close>

definition degree_hierarchy :: "string \<rightharpoonup> nat" where
  "degree_hierarchy =
     [''associate'' \<mapsto> 1, ''bachelor'' \<mapsto> 2, ''master'' \<mapsto> 3, ''doctorate'' \<mapsto> 4]"

definition degree_level :: "string \<Rightarrow> nat" where
  \<comment> \<open>\<^verbatim>\<open>degree_hierarchy.get(degree, 0)\<close>\<close>
  "degree_level d = (case degree_hierarchy d of Some n \<Rightarrow> n | None \<Rightarrow> 0)"

definition calculate_degree_match_score :: "string \<Rightarrow> string \<Rightarrow> real" where
  "calculate_degree_match_score resume_degree required_degree =
     (let resume_level = degree_level resume_degree;
          required_level = degree_level required_degree
      in if resume_degree = required_degree then 1
         else if resume_level > required_level then 1
         else if resume_level > 0 \<and> required_level > 0 then real resume_level / real required_level
         else 0)"

section \<open>Dynamically typed values and library behaviour\<close>

text \<open>
  The experience and education arguments of the scorer are inspected with
  \<^verbatim>\<open>isinstance\<close>, so they are modelled as values of a dynamic type: \<^verbatim>\<open>None\<close>, a number
  (\<^verbatim>\<open>int\<close> and \<^verbatim>\<open>float\<close> together, as a real), a string, a list, or a dictionary with
  string keys (an association list in insertion order; the first entry of a key is the one
  looked up). Booleans and other objects are outside the type.
\<close>

datatype pyval =
    PNone
  | PNum real
  | PStr string
  | PList "pyval list"
  | PDict "(string \<times> pyval) list"

datatype pyerr = KeyError string | ZeroDivisionError | AttributeError | TypeError

definition truthy :: "pyval \<Rightarrow> bool" where
  \<comment> \<open>the truth value Python gives a value in \<^verbatim>\<open>if v\<close> and \<^verbatim>\<open>not v\<close>\<close>
  "truthy v =
     (case v of
        PNone \<Rightarrow> False
      | PNum r \<Rightarrow> r \<noteq> 0
      | PStr s \<Rightarrow> s \<noteq> []
      | PList xs \<Rightarrow> xs \<noteq> []
      | PDict d \<Rightarrow> d \<noteq> [])"

definition dict_get :: "(string \<times> pyval) list \<Rightarrow> string \<Rightarrow> pyval \<Rightarrow> pyval" where
  \<comment> \<open>\<^verbatim>\<open>d.get(key, default)\<close>\<close>
  "dict_get d k dflt = (case map_of d k of Some v \<Rightarrow> v | None \<Rightarrow> dflt)"

text \<open>
  What the Python runtime and the libraries decide, and the source does not, is a
  parameter of the model: the text \<^verbatim>\<open>str\<close> gives a number, a list or a dictionary, the
  parsing of a string by \<^verbatim>\<open>float\<close> and \<^verbatim>\<open>int\<close> (\<open>None\<close> for a \<^verbatim>\<open>ValueError\<close>), the
  calendar year of \<^verbatim>\<open>datetime.now()\<close>, the order in which \<^verbatim>\<open>list(set(xs))\<close> lists the
  elements of a set of strings (it follows the string hashes, which CPython seeds per
  process), and the cosine similarities scikit-learn computes between the TF-IDF vector of
  the first document and those of the others (\<open>None\<close> when it raises).
\<close>

record pylib =
  str_of_value :: "pyval \<Rightarrow> string"
  float_of_str :: "string \<Rightarrow> real option"
  int_of_str :: "string \<Rightarrow> int option"
  current_year :: int
  list_of_set :: "string list \<Rightarrow> string list"
  tfidf_cosine :: "string \<Rightarrow> string list \<Rightarrow> real list option"

definition py_str :: "pylib \<Rightarrow> pyval \<Rightarrow> string" where
  \<comment> \<open>\<^verbatim>\<open>str(v)\<close>\<close>
  "py_str L v = (case v of PStr s \<Rightarrow> s | PNone \<Rightarrow> ''None'' | _ \<Rightarrow> str_of_value L v)"

definition py_float :: "pylib \<Rightarrow> pyval \<Rightarrow> real option" where
  \<comment> \<open>\<^verbatim>\<open>float(v)\<close>; \<open>None\<close> stands for the \<^verbatim>\<open>ValueError\<close> or \<^verbatim>\<open>TypeError\<close> the callers catch\<close>
  "py_float L v = (case v of PNum r \<Rightarrow> Some r | PStr s \<Rightarrow> float_of_str L s | _ \<Rightarrow> None)"

definition py_int :: "pylib \<Rightarrow> pyval \<Rightarrow> int option" where
  \<comment> \<open>\<^verbatim>\<open>int(v)\<close>, which truncates a number towards zero; \<open>None\<close> as for \<open>py_float\<close>\<close>
  "py_int L v =
     (case v of
        PNum r \<Rightarrow> Some (if 0 \<le> r then \<lfloor>r\<rfloor> else \<lceil>r\<rceil>)
      | PStr s \<Rightarrow> int_of_str L s
      | _ \<Rightarrow> None)"

fun str_join :: "string \<Rightarrow> string list \<Rightarrow> string" where
  \<comment> \<open>\<^verbatim>\<open>sep.join(xs)\<close>\<close>
  "str_join sep [] = []"
| "str_join sep [x] = x"
| "str_join sep (x # y # ys) = x @ sep @ str_join sep (y # ys)"

section \<open>Regular expressions\<close>

text \<open>
  The patterns of the source are written as terms of a small regular-expression type and
  matched the way Python's \<^verbatim>\<open>re\<close> matches them: \<open>rmatch r s (i, g)\<close> lists the states
  (end position and captured groups) of all the ways \<open>r\<close> matches \<open>s\<close> from position
  \<open>i\<close>, in the order a backtracking matcher tries them (a greedy star takes another
  iteration before it stops, the left alternative comes before the right one), so the head
  of the list is the match \<^verbatim>\<open>re\<close> reports. \<^verbatim>\<open>\d\<close>, \<^verbatim>\<open>\w\<close> and \<^verbatim>\<open>\s\<close> are the classes
  Python gives them on ASCII text.
\<close>

definition is_digit :: "char \<Rightarrow> bool" where
  "is_digit c = (c \<in> set ''0123456789'')"

definition is_alpha :: "char \<Rightarrow> bool" where
  "is_alpha c = (c \<in> set ''abcdefghijklmnopqrstuvwxyzABCDEFGHIJKLMNOPQRSTUVWXYZ'')"

definition is_word :: "char \<Rightarrow> bool" where
  "is_word c = (is_alpha c \<or> is_digit c \<or> c = CHR ''_'')"

definition is_space :: "char \<Rightarrow> bool" where
  "is_space c = (c \<in> set [CHR '' '', CHR 0x09, CHR 0x0A, CHR 0x0B, CHR 0x0C, CHR 0x0D,
                            CHR 0x1C, CHR 0x1D, CHR 0x1E, CHR 0x1F])"

datatype regex =
    Sym "char \<Rightarrow> bool"
  | Eps
  | WordB
  | Seq regex regex
  | Alt regex regex
  | Star regex
  | Group nat regex

type_synonym groups = "(nat \<times> string) list"
type_synonym mstate = "nat \<times> groups"
type_synonym rmatch_result = "nat \<times> nat \<times> groups"

definition word_boundary :: "string \<Rightarrow> nat \<Rightarrow> bool" where
  \<comment> \<open>\<^verbatim>\<open>\b\<close>: exactly one of the characters before and after position \<open>i\<close> is a word
     character\<close>
  "word_boundary s i =
     ((0 < i \<and> i \<le> length s \<and> is_word (s ! (i - 1))) \<noteq> (i < length s \<and> is_word (s ! i)))"

function rmatch :: "regex \<Rightarrow> string \<Rightarrow> mstate \<Rightarrow> mstate list" where
  "rmatch (Sym p) s (i, g) = (if i < length s \<and> p (s ! i) then [(Suc i, g)] else [])"
| "rmatch Eps s (i, g) = [(i, g)]"
| "rmatch WordB s (i, g) = (if word_boundary s i then [(i, g)] else [])"
| "rmatch (Seq a b) s (i, g) = concat (map (rmatch b s) (rmatch a s (i, g)))"
| "rmatch (Alt a b) s (i, g) = rmatch a s (i, g) @ rmatch b s (i, g)"
| "rmatch (Group n a) s (i, g) =
     map (\<lambda>(j, g'). (j, (n, take (j - i) (drop i s)) # g')) (rmatch a s (i, g))"
| "rmatch (Star a) s (i, g) =
     concat (map (rmatch (Star a) s)
                 (filter (\<lambda>(j, g'). i < j \<and> j \<le> length s) (rmatch a s (i, g))))
     @ [(i, g)]"
  by pat_completeness auto
termination
  by (relation "measures [\<lambda>(r, s, i, g). size r, \<lambda>(r, s, i, g). length s - i]") auto

definition lit :: "string \<Rightarrow> regex" where
  \<comment> \<open>the characters of a string, one after the other; also \<^verbatim>\<open>re.escape(s)\<close>\<close>
  "lit s = foldr (\<lambda>c r. Seq (Sym (\<lambda>x. x = c)) r) s Eps"

definition lit_ci :: "string \<Rightarrow> regex" where
  \<comment> \<open>the same under \<^verbatim>\<open>re.IGNORECASE\<close>\<close>
  "lit_ci s = foldr (\<lambda>c r. Seq (Sym (\<lambda>x. lower_char x = lower_char c)) r) s Eps"

definition Plus :: "regex \<Rightarrow> regex" where
  "Plus r = Seq r (Star r)"

definition Opt :: "regex \<Rightarrow> regex" where
  "Opt r = Alt r Eps"

fun seqs :: "regex list \<Rightarrow> regex" where
  "seqs [] = Eps"
| "seqs (r # rs) = Seq r (seqs rs)"

fun first_match :: "regex \<Rightarrow> string \<Rightarrow> nat list \<Rightarrow> rmatch_result option" where
  "first_match r s [] = None"
| "first_match r s (i # is) =
     (case rmatch r s (i, []) of
        [] \<Rightarrow> first_match r s is
      | (j, g) # _ \<Rightarrow> Some (i, j, g))"

definition re_search :: "regex \<Rightarrow> string \<Rightarrow> rmatch_result option" where
  \<comment> \<open>\<^verbatim>\<open>re.search\<close>: the match at the leftmost start position that has one, as its start,
     its end and its groups\<close>
  "re_search r s = first_match r s [0..<Suc (length s)]"

fun all_matches :: "regex \<Rightarrow> string \<Rightarrow> nat list \<Rightarrow> nat \<Rightarrow> rmatch_result list" where
  "all_matches r s [] lo = []"
| "all_matches r s (i # is) lo =
     (if i < lo then all_matches r s is lo
      else case rmatch r s (i, []) of
             [] \<Rightarrow> all_matches r s is lo
           | (j, g) # _ \<Rightarrow> (i, j, g) # all_matches r s is (if j = i then Suc i else j))"

definition re_findall :: "regex \<Rightarrow> string \<Rightarrow> rmatch_result list" where
  \<comment> \<open>the matches \<^verbatim>\<open>re.findall\<close> reports: leftmost first, none overlapping another\<close>
  "re_findall r s = all_matches r s [0..<Suc (length s)] 0"

fun pieces :: "string \<Rightarrow> nat \<Rightarrow> rmatch_result list \<Rightarrow> string list" where
  "pieces s k [] = [drop k s]"
| "pieces s k ((i, j, g) # ms) = take (i - k) (drop k s) # pieces s j ms"

definition re_split :: "regex \<Rightarrow> string \<Rightarrow> string list" where
  \<comment> \<open>\<^verbatim>\<open>re.split\<close> for a pattern without groups that matches no empty string\<close>
  "re_split r s = pieces s 0 (re_findall r s)"

definition matched_text :: "string \<Rightarrow> rmatch_result \<Rightarrow> string" where
  \<comment> \<open>\<^verbatim>\<open>match.group(0)\<close>\<close>
  "matched_text s m = (case m of (i, j, g) \<Rightarrow> take (j - i) (drop i s))"

definition group :: "rmatch_result \<Rightarrow> nat \<Rightarrow> string option" where
  \<comment> \<open>\<^verbatim>\<open>match.group(n)\<close> for \<open>n > 0\<close>; \<open>None\<close> when the group took no part in the match\<close>
  "group m n = (case m of (i, j, g) \<Rightarrow> map_of g n)"

definition digit_value :: "char \<Rightarrow> nat" where
  "digit_value c =
     (case map_of (zip ''0123456789'' [0, 1, 2, 3, 4, 5, 6, 7, 8, 9]) c of
        Some d \<Rightarrow> d
      | None \<Rightarrow> 0)"

definition int_of_digits :: "string \<Rightarrow> nat" where
  \<comment> \<open>\<^verbatim>\<open>int(s)\<close> and \<^verbatim>\<open>float(s)\<close> for a string of decimal digits, as \<^verbatim>\<open>\d+\<close> captures\<close>
  "int_of_digits s = foldl (\<lambda>n c. 10 * n + digit_value c) 0 s"

section \<open>Experience match\<close>

record experience_analysis = scored +
  years_required :: "int option"
  years_matched :: "real option"
  experience_match_percentage :: real

definition year_patterns :: "regex list" where
  \<comment> \<open>\<^verbatim>\<open>(\d+)\+?\s*years?\<close>, \<^verbatim>\<open>(\d+)\s*\+\s*years?\<close>, \<^verbatim>\<open>minimum\s*of\s*(\d+)\s*years?\<close>,
     \<^verbatim>\<open>at\s*least\s*(\d+)\s*years?\<close>, \<^verbatim>\<open>(\d+)[-\s](\d+)\s*years?\<close>, searched with
     \<^verbatim>\<open>re.IGNORECASE\<close>\<close>
  "year_patterns =
     [seqs [Group 1 (Plus (Sym is_digit)), Opt (lit ''+''), Star (Sym is_space),
            lit_ci ''year'', Opt (lit_ci ''s'')],
      seqs [Group 1 (Plus (Sym is_digit)), Star (Sym is_space), lit ''+'', Star (Sym is_space),
            lit_ci ''year'', Opt (lit_ci ''s'')],
      seqs [lit_ci ''minimum'', Star (Sym is_space), lit_ci ''of'', Star (Sym is_space),
            Group 1 (Plus (Sym is_digit)), Star (Sym is_space), lit_ci ''year'', Opt (lit_ci ''s'')],
      seqs [lit_ci ''at'', Star (Sym is_space), lit_ci ''least'', Star (Sym is_space),
            Group 1 (Plus (Sym is_digit)), Star (Sym is_space), lit_ci ''year'', Opt (lit_ci ''s'')],
      seqs [Group 1 (Plus (Sym is_digit)), Sym (\<lambda>c. c = CHR ''-'' \<or> is_space c),
            Group 2 (Plus (Sym is_digit)), Star (Sym is_space), lit_ci ''year'', Opt (lit_ci ''s'')]]"

definition exp_phrases :: "(string \<times> int) list" where
  "exp_phrases =
     [(''entry level'', 0), (''junior'', 1), (''mid-level'', 3), (''mid level'', 3),
      (''intermediate'', 3), (''senior'', 5), (''experienced'', 4), (''principal'', 8),
      (''lead'', 6), (''manager'', 5), (''director'', 8), (''executive'', 10)]"

fun years_by_pattern :: "regex list \<Rightarrow> string \<Rightarrow> int option" where
  \<comment> \<open>the loop over \<^verbatim>\<open>year_patterns\<close>: the first pattern found in the text decides, and both
     branches of the test on the second group return \<^verbatim>\<open>int(match.group(1))\<close>\<close>
  "years_by_pattern [] text = None"
| "years_by_pattern (pattern # rest) text =
     (case re_search pattern text of
        Some m \<Rightarrow> (case group m 1 of
                     Some digits \<Rightarrow> Some (int (int_of_digits digits))
                   | None \<Rightarrow> None)
      | None \<Rightarrow> years_by_pattern rest text)"

definition years_from_text :: "string \<Rightarrow> int option" where
  \<comment> \<open>\<^verbatim>\<open>extract_years_from_experience\<close> once it holds a string\<close>
  "years_from_text experience_text =
     (case years_by_pattern year_patterns experience_text of
        Some years \<Rightarrow> Some years
      | None \<Rightarrow>
          (case find (\<lambda>(phrase, years). str_in phrase (lower experience_text)) exp_phrases of
             Some (phrase, years) \<Rightarrow> Some years
           | None \<Rightarrow> None))"

definition extract_years_from_experience :: "pylib \<Rightarrow> pyval \<Rightarrow> int option" where
  "extract_years_from_experience L experience_text =
     (case experience_text of
        PDict d \<Rightarrow>
          (case map_of d ''description'' of
             Some description \<Rightarrow>
               (case description of PStr text \<Rightarrow> years_from_text text | _ \<Rightarrow> None)
           | None \<Rightarrow>
               (case map_of d ''years'' of
                  Some years \<Rightarrow> py_int L years
                | None \<Rightarrow>
                    years_from_text
                      (str_join '' ''
                         (concat (map (\<lambda>(k, v). case v of PStr t \<Rightarrow> [t] | _ \<Rightarrow> []) d)))))
      | PStr text \<Rightarrow> years_from_text text
      | _ \<Rightarrow> None)"

definition year_in_date :: regex where
  \<comment> \<open>\<^verbatim>\<open>20\d{2}|19\d{2}\<close>\<close>
  "year_in_date =
     Alt (seqs [lit ''20'', Sym is_digit, Sym is_digit]) (seqs [lit ''19'', Sym is_digit, Sym is_digit])"

definition extract_year_from_date :: "pylib \<Rightarrow> pyval \<Rightarrow> string option" where
  "extract_year_from_date L date_str =
     (if \<not> truthy date_str then None
      else let date_str = py_str L date_str
           in case re_search year_in_date date_str of
                Some m \<Rightarrow> Some (matched_text date_str m)
              | None \<Rightarrow> None)"

definition duration_years :: regex where
  \<comment> \<open>\<^verbatim>\<open>(\d+)\s*years?\<close>\<close>
  "duration_years =
     seqs [Group 1 (Plus (Sym is_digit)), Star (Sym is_space), lit ''year'', Opt (lit ''s'')]"

definition duration_months :: regex where
  \<comment> \<open>\<^verbatim>\<open>(\d+)\s*months?\<close>\<close>
  "duration_months =
     seqs [Group 1 (Plus (Sym is_digit)), Star (Sym is_space), lit ''month'', Opt (lit ''s'')]"

definition group_number :: "regex \<Rightarrow> string \<Rightarrow> real option" where
  \<comment> \<open>\<^verbatim>\<open>float(m.group(1))\<close> of the search for a pattern, when it matches\<close>
  "group_number r s =
     (case re_search r s of
        Some m \<Rightarrow> (case group m 1 of Some digits \<Rightarrow> Some (real (int_of_digits digits)) | None \<Rightarrow> None)
      | None \<Rightarrow> None)"

definition entry_years :: "pylib \<Rightarrow> pyval \<Rightarrow> real" where
  \<comment> \<open>what one pass of the loop of \<^verbatim>\<open>calculate_total_experience_years\<close> adds to
     \<^verbatim>\<open>total_years\<close>\<close>
  "entry_years L entry =
     (case entry of
        PDict e \<Rightarrow>
          (case map_of e ''years'' of
             Some years \<Rightarrow> (case py_float L years of Some r \<Rightarrow> r | None \<Rightarrow> 0)
           | None \<Rightarrow>
               (case map_of e ''duration'' of
                  Some d \<Rightarrow>
                    (let duration = lower (py_str L d);
                         years = (case group_number duration_years duration of Some y \<Rightarrow> y | None \<Rightarrow> 0);
                         months = (case group_number duration_months duration of
                                     Some m \<Rightarrow> m / 12
                                   | None \<Rightarrow> 0)
                     in years + months)
                | None \<Rightarrow>
                    (case (map_of e ''start_date'', map_of e ''end_date'') of
                       (Some start_date, Some end_date) \<Rightarrow>
                         (case (extract_year_from_date L start_date, extract_year_from_date L end_date) of
                            (Some start_year, Some end_year) \<Rightarrow>
                              (let end_year =
                                     (if end_year = ''Present'' \<or> end_year = ''Current''
                                      then real_of_int (current_year L)
                                      else real (int_of_digits end_year));
                                   years = end_year - real (int_of_digits start_year)
                               in max 0 years)
                          | _ \<Rightarrow> 0)
                     | _ \<Rightarrow> 0)))
      | _ \<Rightarrow> 0)"

definition calculate_total_experience_years :: "pylib \<Rightarrow> pyval \<Rightarrow> real" where
  "calculate_total_experience_years L experience_entries =
     (if \<not> truthy experience_entries then 0
      else case experience_entries of
             PList entries \<Rightarrow> py_round (foldl (\<lambda>total entry. total + entry_years L entry) 0 entries) 1
           | PDict d \<Rightarrow> py_round (foldl (\<lambda>total entry. total + entry_years L entry) 0 [PDict d]) 1
           | _ \<Rightarrow> 0)"

definition seniority_levels :: "(string \<times> real) list" where
  "seniority_levels =
     [(''entry'', 0.2), (''junior'', 0.4), (''mid'', 0.6), (''senior'', 0.8), (''lead'', 0.9),
      (''principal'', 1.0), (''staff'', 0.9), (''manager'', 0.9), (''director'', 1.0),
      (''vp'', 1.0), (''head'', 1.0), (''chief'', 1.0)]"

fun title_seniority :: "pyval list \<Rightarrow> real \<Rightarrow> pyerr + real" where
  \<comment> \<open>the loop over the resume entries in \<^verbatim>\<open>match_seniority_level\<close>; \<^verbatim>\<open>.lower()\<close> on a
     title that is no string raises\<close>
  "title_seniority [] resume_seniority = Inr resume_seniority"
| "title_seniority (entry # rest) resume_seniority =
     (case entry of
        PDict e \<Rightarrow>
          (case dict_get e ''title'' (PStr []) of
             PStr title \<Rightarrow>
               title_seniority rest
                 (foldl (\<lambda>seniority (level, weight).
                           if str_in level (lower title) then max seniority weight else seniority)
                        resume_seniority seniority_levels)
           | _ \<Rightarrow> Inl AttributeError)
      | _ \<Rightarrow> title_seniority rest resume_seniority)"

definition match_seniority_level :: "pylib \<Rightarrow> pyval \<Rightarrow> pyval \<Rightarrow> pyerr + real" where
  "match_seniority_level L resume_experience job_experience =
     (let job_exp_lower = (case job_experience of PStr s \<Rightarrow> lower s | _ \<Rightarrow> []);
          job_seniority =
            (case find (\<lambda>(level, weight). str_in level job_exp_lower) seniority_levels of
               Some (level, weight) \<Rightarrow> weight
             | None \<Rightarrow> 0.5);
          total_years = calculate_total_experience_years L resume_experience;
          resume_seniority =
            (if total_years \<ge> 10 then 1.0
             else if total_years \<ge> 8 then 0.9
             else if total_years \<ge> 5 then 0.8
             else if total_years \<ge> 3 then 0.6
             else if total_years \<ge> 1 then 0.4
             else 0.2);
          looped =
            (case resume_experience of
               PList entries \<Rightarrow> title_seniority entries resume_seniority
             | PDict d \<Rightarrow> Inr resume_seniority
             | PStr s \<Rightarrow> Inr resume_seniority
             | _ \<Rightarrow> Inl TypeError)
      in case looped of
           Inl e \<Rightarrow> Inl e
         | Inr resume_seniority \<Rightarrow>
             Inr (if resume_seniority \<ge> job_seniority then 1
                  else if job_seniority > 0 then resume_seniority / job_seniority else 1))"

definition calculate_experience_match ::
  "pylib \<Rightarrow> pyval \<Rightarrow> pyval \<Rightarrow> config \<Rightarrow> pyerr + experience_analysis" where
  "calculate_experience_match L resume_experience job_experience cfg =
     (if \<not> truthy job_experience then
        Inr \<lparr>score = 1, years_required = None, years_matched = None,
             experience_match_percentage = 100\<rparr>
      else
        case extract_years_from_experience L job_experience of
          None \<Rightarrow>
            (case match_seniority_level L resume_experience job_experience of
               Inl e \<Rightarrow> Inl e
             | Inr seniority_score \<Rightarrow>
                 Inr \<lparr>score = seniority_score, years_required = None, years_matched = None,
                      experience_match_percentage = py_round (seniority_score * 100) 1\<rparr>)
        | Some job_years \<Rightarrow>
            (let resume_years = calculate_total_experience_years L resume_experience;
                 (match_score, match_percentage) =
                   (if job_years > 0 then
                      (if resume_years \<ge> real_of_int job_years then (1, 100)
                       else (resume_years / real_of_int job_years,
                             resume_years / real_of_int job_years * 100))
                    else (1, 100))
             in Inr \<lparr>score = py_round match_score 2, years_required = Some job_years,
                     years_matched = Some resume_years,
                     experience_match_percentage = py_round match_percentage 1\<rparr>))"

section \<open>Education match\<close>

record education_analysis = scored +
  degree_required :: "string list option"
  degree_matched :: bool
  field_match :: "string list option"
  education_match_percentage :: real

definition degree_patterns :: "(string \<times> string list) list" where
  "degree_patterns =
     [(''bachelor'', [''bachelor'', ''bachelors'', ''bachelor's'', ''bs'', ''ba'', ''b.s.'', ''b.a.'',
                      ''undergraduate'']),
      (''master'', [''master'', ''masters'', ''master's'', ''ms'', ''ma'', ''m.s.'', ''m.a.'',
                    ''graduate'']),
      (''doctorate'', [''ph.d'', ''phd'', ''doctorate'', ''doctoral'', ''doctor of philosophy'']),
      (''associate'', [''associate'', ''associates'', ''associate's'', ''aa'', ''a.a.'', ''a.s.''])]"

definition common_fields :: "string list" where
  "common_fields =
     [''computer science'', ''information technology'', ''software engineering'',
      ''data science'', ''mathematics'', ''statistics'', ''engineering'',
      ''business'', ''finance'', ''economics'', ''marketing'', ''accounting'',
      ''biology'', ''chemistry'', ''physics'', ''psychology'', ''sociology'',
      ''communications'', ''english'', ''history'', ''arts'',
      ''healthcare'', ''nursing'', ''medicine'', ''pharmacy'']"

definition requirement_list :: "pyval \<Rightarrow> pyval list option" where
  \<comment> \<open>a string becomes the one-element list of it; \<open>None\<close> when the value is no list after
     that, where the extractors return their empty list\<close>
  "requirement_list v = (case v of PStr s \<Rightarrow> Some [PStr s] | PList xs \<Rightarrow> Some xs | _ \<Rightarrow> None)"

definition extract_degree_requirements :: "pylib \<Rightarrow> pyval \<Rightarrow> string list" where
  "extract_degree_requirements L education_requirements =
     (case requirement_list education_requirements of
        None \<Rightarrow> []
      | Some reqs \<Rightarrow>
          list_of_set L
            (concat (map (\<lambda>req. case req of
                                  PStr r \<Rightarrow>
                                    map fst (filter (\<lambda>(degree, patterns).
                                                       list_ex (\<lambda>pattern. str_in pattern (lower r)) patterns)
                                                    degree_patterns)
                                | _ \<Rightarrow> [])
                         reqs)))"

definition extract_field_requirements :: "pylib \<Rightarrow> pyval \<Rightarrow> string list" where
  "extract_field_requirements L education_requirements =
     (case requirement_list education_requirements of
        None \<Rightarrow> []
      | Some reqs \<Rightarrow>
          list_of_set L
            (concat (map (\<lambda>req. case req of
                                  PStr r \<Rightarrow> filter (\<lambda>field. str_in field (lower r)) common_fields
                                | _ \<Rightarrow> [])
                         reqs)))"

definition degree_of_entry :: "string \<Rightarrow> string list" where
  \<comment> \<open>the \<^verbatim>\<open>if\<close>/\<^verbatim>\<open>elif\<close> chain of \<^verbatim>\<open>extract_degrees_from_resume\<close> on the lower-cased degree
     text\<close>
  "degree_of_entry degree =
     (let padded = '' '' @ degree @ '' ''
      in if str_in ''bachelor'' degree \<or> str_in '' bs '' padded \<or> str_in '' ba '' padded
            \<or> str_in ''b.s'' degree \<or> str_in ''b.a'' degree then [''bachelor'']
         else if str_in ''master'' degree \<or> str_in '' ms '' padded \<or> str_in '' ma '' padded
            \<or> str_in ''m.s'' degree \<or> str_in ''m.a'' degree then [''master'']
         else if str_in ''phd'' degree \<or> str_in ''ph.d'' degree \<or> str_in ''doctor'' degree
           then [''doctorate'']
         else if str_in ''associate'' degree \<or> str_in ''a.a'' degree \<or> str_in ''a.s'' degree
           then [''associate'']
         else [])"

definition extract_degrees_from_resume :: "pylib \<Rightarrow> pyval \<Rightarrow> string list" where
  "extract_degrees_from_resume L education_entries =
     (case (case education_entries of
              PStr s \<Rightarrow> Some [PDict [(''degree'', PStr s)]]
            | PList xs \<Rightarrow> Some xs
            | _ \<Rightarrow> None) of
        None \<Rightarrow> []
      | Some entries \<Rightarrow>
          list_of_set L
            (concat (map (\<lambda>entry. case entry of
                                    PDict e \<Rightarrow>
                                      degree_of_entry (lower (py_str L (dict_get e ''degree'' (PStr []))))
                                  | _ \<Rightarrow> [])
                         entries)))"

definition field_in_degree :: regex where
  \<comment> \<open>\<^verbatim>\<open>in\s+([A-Za-z\s]+)\<close>, searched with \<^verbatim>\<open>re.IGNORECASE\<close>\<close>
  "field_in_degree =
     seqs [lit_ci ''in'', Plus (Sym is_space), Group 1 (Plus (Sym (\<lambda>c. is_alpha c \<or> is_space c)))]"

definition fields_of_entry :: "pylib \<Rightarrow> (string \<times> pyval) list \<Rightarrow> string list" where
  \<comment> \<open>what one pass of the loop of \<^verbatim>\<open>extract_fields_from_resume\<close> appends\<close>
  "fields_of_entry L e =
     (let field = py_str L (dict_get e ''field'' (PStr []));
          degree_text = py_str L (dict_get e ''degree'' (PStr []))
      in (if field \<noteq> [] then [lower field] else [])
         @ (if str_in ''in '' (lower degree_text) then
              (case re_search field_in_degree degree_text of
                 Some m \<Rightarrow> (case group m 1 of Some f \<Rightarrow> [lower f] | None \<Rightarrow> [])
               | None \<Rightarrow> [])
            else []))"

definition extract_fields_from_resume :: "pylib \<Rightarrow> pyval \<Rightarrow> string list" where
  "extract_fields_from_resume L education_entries =
     (case (case education_entries of
              PStr s \<Rightarrow> Some [PDict [(''field'', PStr s)]]
            | PList xs \<Rightarrow> Some xs
            | _ \<Rightarrow> None) of
        None \<Rightarrow> []
      | Some entries \<Rightarrow>
          list_of_set L
            (concat (map (\<lambda>entry. case entry of PDict e \<Rightarrow> fields_of_entry L e | _ \<Rightarrow> []) entries)))"

definition related_fields :: "(string \<times> (string \<times> real) list) list" where
  "related_fields =
     [(''computer science'',
         [(''software engineering'', 0.9), (''information technology'', 0.8), (''data science'', 0.8),
          (''information systems'', 0.7), (''mathematics'', 0.6), (''engineering'', 0.6)]),
      (''data science'',
         [(''statistics'', 0.9), (''mathematics'', 0.8), (''computer science'', 0.8),
          (''analytics'', 0.9), (''machine learning'', 0.9)]),
      (''business'',
         [(''finance'', 0.8), (''marketing'', 0.7), (''economics'', 0.8), (''management'', 0.9),
          (''accounting'', 0.7), (''mba'', 0.9)]),
      (''engineering'',
         [(''mechanical engineering'', 0.9), (''electrical engineering'', 0.8),
          (''civil engineering'', 0.7), (''computer engineering'', 0.8),
          (''software engineering'', 0.7)])]"

definition related_similarity :: "string \<Rightarrow> string \<Rightarrow> real option" where
  \<comment> \<open>\<^verbatim>\<open>related_fields[a][b]\<close> when both keys are there\<close>
  "related_similarity a b = (case map_of related_fields a of Some row \<Rightarrow> map_of row b | None \<Rightarrow> None)"

definition field_similarity :: "string \<Rightarrow> string \<Rightarrow> real" where
  "field_similarity resume_field required_field =
     (if resume_field = required_field then 1
      else case related_similarity required_field resume_field of
             Some x \<Rightarrow> x
           | None \<Rightarrow>
               (case related_similarity resume_field required_field of
                  Some x \<Rightarrow> x
                | None \<Rightarrow>
                    if str_in required_field resume_field \<or> str_in resume_field required_field
                    then 0.7 else 0.2))"

definition degree_loop :: "string list \<Rightarrow> string list \<Rightarrow> real \<times> string list" where
  \<comment> \<open>the nested loop over required and resume degrees, on \<^verbatim>\<open>degree_match_score\<close> and
     \<^verbatim>\<open>matched_degrees\<close>\<close>
  "degree_loop required_degrees resume_degrees =
     foldl (\<lambda>(degree_match_score, matched_degrees) (req_degree, res_degree).
              let match_score = calculate_degree_match_score res_degree req_degree
              in if match_score > 0
                 then (max degree_match_score match_score, matched_degrees @ [req_degree])
                 else (degree_match_score, matched_degrees))
           (0, [])
           (concat (map (\<lambda>req_degree. map (\<lambda>res_degree. (req_degree, res_degree)) resume_degrees)
                        required_degrees))"

definition field_loop :: "string list \<Rightarrow> string list \<Rightarrow> real \<times> string list" where
  \<comment> \<open>the nested loop over required and resume fields, on \<^verbatim>\<open>field_match_score\<close> and
     \<^verbatim>\<open>matched_fields\<close>\<close>
  "field_loop required_fields resume_fields =
     foldl (\<lambda>(field_match_score, matched_fields) (req_field, res_field).
              if field_similarity res_field req_field \<ge> 0.7
              then (1, matched_fields @ [req_field])
              else (field_match_score, matched_fields))
           (0, [])
           (concat (map (\<lambda>req_field. map (\<lambda>res_field. (req_field, res_field)) resume_fields)
                        required_fields))"

definition calculate_education_match ::
  "pylib \<Rightarrow> pyval \<Rightarrow> pyval \<Rightarrow> config \<Rightarrow> education_analysis" where
  "calculate_education_match L resume_education job_education cfg =
     (if \<not> truthy job_education then
        \<lparr>score = 1, degree_required = None, degree_matched = True, field_match = None,
         education_match_percentage = 100\<rparr>
      else
        let required_degrees = extract_degree_requirements L job_education;
            required_fields = extract_field_requirements L job_education;
            resume_degrees = extract_degrees_from_resume L resume_education;
            resume_fields = extract_fields_from_resume L resume_education;
            (degree_match_score, matched_degrees) = degree_loop required_degrees resume_degrees;
            (field_match_score, matched_fields) = field_loop required_fields resume_fields;
            field_match_score = (if required_fields = [] then 1 else field_match_score);
            combined_score = 0.7 * degree_match_score + 0.3 * field_match_score
        in \<lparr>score = py_round combined_score 2,
            degree_required = Some required_degrees,
            degree_matched = (if required_degrees \<noteq> [] then matched_degrees \<noteq> [] else True),
            field_match = Some matched_fields,
            education_match_percentage = py_round (combined_score * 100) 1\<rparr>)"

section \<open>Keyword density and content similarity\<close>

record density_analysis = scored +
  keyword_count :: "(string \<times> nat) list"
  density :: real
  distribution :: real

record similarity_analysis = scored +
  similarity :: real
  similarity_failed :: bool

definition word_pattern :: regex where
  \<comment> \<open>\<^verbatim>\<open>\b\w+\b\<close>\<close>
  "word_pattern = seqs [WordB, Plus (Sym is_word), WordB]"

definition keyword_pattern :: "string \<Rightarrow> regex" where
  \<comment> \<open>\<^verbatim>\<open>r'\b' + re.escape(keyword) + r'\b'\<close>\<close>
  "keyword_pattern keyword = seqs [WordB, lit keyword, WordB]"

definition blank_line :: regex where
  \<comment> \<open>\<^verbatim>\<open>\n\s*\n|\r\n\s*\r\n\<close>\<close>
  "blank_line =
     Alt (seqs [lit [CHR 0x0A], Star (Sym is_space), lit [CHR 0x0A]])
         (seqs [lit [CHR 0x0D, CHR 0x0A], Star (Sym is_space), lit [CHR 0x0D, CHR 0x0A]])"

definition dict_set :: "'k \<Rightarrow> 'v \<Rightarrow> ('k \<times> 'v) list \<Rightarrow> ('k \<times> 'v) list" where
  \<comment> \<open>\<^verbatim>\<open>d[k] = v\<close>: a known key keeps its place, a new one goes to the end\<close>
  "dict_set k v d =
     (if k \<in> set (map fst d) then map (\<lambda>(k', v'). if k' = k then (k', v) else (k', v')) d
      else d @ [(k, v)])"

definition zero_density :: density_analysis where
  "zero_density = \<lparr>score = 0, keyword_count = [], density = 0, distribution = 0\<rparr>"

definition calculate_keyword_density :: "string \<Rightarrow> string list \<Rightarrow> density_analysis" where
  "calculate_keyword_density resume_text job_keywords =
     (if resume_text = [] \<or> job_keywords = [] then zero_density
      else
        let words = re_findall word_pattern (lower resume_text);
            total_words = length words
        in if total_words = 0 then zero_density
           else
             let counts =
                   foldl (\<lambda>counts keyword.
                            let matches = re_findall (keyword_pattern (lower keyword)) (lower resume_text)
                            in if matches \<noteq> [] then dict_set keyword (length matches) counts
                               else counts)
                         [] job_keywords;
                 total_keywords = sum_list (map snd counts);
                 keyword_density = real total_keywords / real total_words;
                 sections = re_split blank_line resume_text;
                 sections_with_keywords =
                   length (filter (\<lambda>section.
                                     list_ex (\<lambda>keyword.
                                                re_search (keyword_pattern (lower keyword)) (lower section)
                                                  \<noteq> None)
                                             job_keywords)
                                  sections);
                 section_share =
                   (if sections \<noteq> [] then real sections_with_keywords / real (length sections) else 0);
                 density_score = 0.7 * min (keyword_density * 50) 1 + 0.3 * section_share
             in \<lparr>score = py_round density_score 2, keyword_count = counts,
                 density = py_round (keyword_density * 100) 2,
                 distribution = py_round (section_share * 100) 2\<rparr>)"

text \<open>
  Of the result of \<^verbatim>\<open>calculate_content_similarity\<close> the list of the three best matching
  sections is left out; \<open>similarity_failed\<close> says that the \<^verbatim>\<open>except\<close> branch was taken.
\<close>

definition calculate_content_similarity :: "pylib \<Rightarrow> string \<Rightarrow> string list \<Rightarrow> similarity_analysis" where
  "calculate_content_similarity L resume_text responsibilities =
     (let job_responsibilities = str_join '' '' responsibilities
      in if resume_text = [] \<or> job_responsibilities = [] then
           \<lparr>score = 0, similarity = 0, similarity_failed = False\<rparr>
         else
           let sections = re_split blank_line resume_text
           in case tfidf_cosine L job_responsibilities sections of
                None \<Rightarrow> \<lparr>score = 0, similarity = 0, similarity_failed = True\<rparr>
              | Some similarities \<Rightarrow>
                  let max_similarity = (if similarities \<noteq> [] then fold max similarities (hd similarities) else 0);
                      avg_similarity =
                        (if similarities \<noteq> [] then sum_list similarities / real (length similarities)
                         else 0);
                      overall_score = 0.7 * max_similarity + 0.3 * avg_similarity
                  in \<lparr>score = py_round overall_score 2,
                      similarity = py_round (max_similarity * 100) 1,
                      similarity_failed = False\<rparr>)"

section \<open>The overall score\<close>

text \<open>
  The two dictionaries \<^verbatim>\<open>calculate_match_score\<close> reads with \<^verbatim>\<open>.get(key, default)\<close> are
  records of the entries it reads (\<open>r_skills\<close> for \<^verbatim>\<open>resume_data['skills']\<close>, \<open>j_skills\<close> for
  \<^verbatim>\<open>job_analysis['skills']\<close>, and so on); an entry that is absent in Python is its default
  here (the empty list or string). The list of improvement suggestions, which is text built
  from the three analyses, is left out of the report.
\<close>

record resume_data =
  r_skills :: "string list"
  r_experience :: pyval
  r_education :: pyval
  r_raw_text :: string

record job_analysis =
  j_skills :: "string list"
  j_priority_skills :: "string list"
  j_experience :: pyval
  j_education :: pyval
  j_responsibilities :: "string list"

record match_report =
  overall_score :: real
  ranking :: string
  percentile :: string
  skill_report :: skill_analysis
  experience_report :: experience_analysis
  education_report :: education_analysis
  density_report :: density_analysis
  similarity_report :: similarity_analysis

definition config_item :: "config \<Rightarrow> string \<Rightarrow> pyerr + real" where
  \<comment> \<open>\<^verbatim>\<open>config[key]\<close>\<close>
  "config_item cfg k = (case cfg k of Some v \<Rightarrow> Inr v | None \<Rightarrow> Inl (KeyError k))"

definition weighted_overall :: "config \<Rightarrow> real \<Rightarrow> real \<Rightarrow> real \<Rightarrow> pyerr + real" where
  \<comment> \<open>the weighted average of the three scores and its rounding to two decimals\<close>
  "weighted_overall cfg skill_score experience_score education_score =
     (case config_item cfg ''skill_weight'' of
        Inl e \<Rightarrow> Inl e
      | Inr skill_weight \<Rightarrow>
          (case config_item cfg ''experience_weight'' of
             Inl e \<Rightarrow> Inl e
           | Inr experience_weight \<Rightarrow>
               (case config_item cfg ''education_weight'' of
                  Inl e \<Rightarrow> Inl e
                | Inr education_weight \<Rightarrow>
                    if skill_weight + experience_weight + education_weight = 0
                    then Inl ZeroDivisionError
                    else Inr (py_round
                                ((skill_score * skill_weight + experience_score * experience_weight
                                    + education_score * education_weight)
                                 / (skill_weight + experience_weight + education_weight))
                                2))))"

definition ranking_of :: "real \<Rightarrow> string \<times> string" where
  \<comment> \<open>the ranking and the percentile of an overall score\<close>
  "ranking_of overall =
     (if overall \<ge> 0.9 then (''Excellent Match'', ''Top 10%'')
      else if overall \<ge> 0.8 then (''Strong Match'', ''Top 20%'')
      else if overall \<ge> 0.7 then (''Good Match'', ''Top 30%'')
      else if overall \<ge> 0.6 then (''Fair Match'', ''Top 40%'')
      else (''Needs Improvement'', ''Below Average''))"

definition calculate_match_score ::
  "pylib \<Rightarrow> resume_data \<Rightarrow> job_analysis \<Rightarrow> config option \<Rightarrow> pyerr + match_report" where
  "calculate_match_score L resume job config =
     (let cfg = (case config of None \<Rightarrow> default_config | Some c \<Rightarrow> c);
          skill_score = calculate_skill_match (r_skills resume) (j_skills job) (j_priority_skills job) cfg
      in case calculate_experience_match L (r_experience resume) (j_experience job) cfg of
           Inl e \<Rightarrow> Inl e
         | Inr experience_score \<Rightarrow>
             let education_score = calculate_education_match L (r_education resume) (j_education job) cfg
             in case weighted_overall cfg (score skill_score) (score experience_score)
                       (score education_score) of
                  Inl e \<Rightarrow> Inl e
                | Inr overall \<Rightarrow>
                    Inr \<lparr>overall_score = overall,
                         ranking = fst (ranking_of overall),
                         percentile = snd (ranking_of overall),
                         skill_report = skill_score,
                         experience_report = experience_score,
                         education_report = education_score,
                         density_report = calculate_keyword_density (r_raw_text resume) (j_skills job),
                         similarity_report =
                           calculate_content_similarity L (r_raw_text resume) (j_responsibilities job)\<rparr>)"

section \<open>Skill extraction from a job description\<close>

definition COMMON_TECH_SKILLS :: "string list" where
  "COMMON_TECH_SKILLS =
     [''python'', ''javascript'', ''java'', ''c++'', ''c#'', ''ruby'', ''php'', ''swift'',
      ''kotlin'', ''go'', ''rust'', ''typescript'', ''sql'', ''nosql'', ''mongodb'',
      ''postgresql'', ''mysql'', ''oracle'', ''react'', ''angular'', ''vue.js'', ''node.js'',
      ''express.js'', ''django'', ''flask'', ''spring'', ''asp.net'', ''laravel'',
      ''aws'', ''azure'', ''gcp'', ''docker'', ''kubernetes'', ''terraform'', ''jenkins'',
      ''git'', ''ci/cd'', ''agile'', ''scrum'', ''jira'', ''rest api'', ''graphql'',
      ''machine learning'', ''deep learning'', ''ai'', ''data science'', ''big data'',
      ''hadoop'', ''spark'', ''kafka'', ''elasticsearch'', ''tableau'', ''power bi'',
      ''excel'', ''powerpoint'', ''word'', ''html'', ''css'', ''bootstrap'', ''sass'',
      ''redux'', ''jquery'', ''webpack'', ''babel'', ''responsive design'', ''mobile development'']"

definition found_skills :: "string \<Rightarrow> string list" where
  \<comment> \<open>the loop of \<^verbatim>\<open>extract_skills\<close> over the vocabulary, which is all of
     \<^verbatim>\<open>extract_skills_from_text\<close> of \<^verbatim>\<open>app/components/resume_upload.py\<close>\<close>
  "found_skills text =
     (let text_lower = lower text
      in filter (\<lambda>skill. re_search (keyword_pattern skill) text_lower \<noteq> None) COMMON_TECH_SKILLS)"

definition extract_skills :: "pylib \<Rightarrow> string \<Rightarrow> string list" where
  \<comment> \<open>\<^verbatim>\<open>extract_skills\<close> of \<^verbatim>\<open>app/components/job_description.py\<close>, which ends with
     \<^verbatim>\<open>list(set(extracted_skills))\<close>\<close>
  "extract_skills L text = list_of_set L (found_skills text)"

definition extract_skills_from_text :: "string \<Rightarrow> string list" where
  "extract_skills_from_text text = found_skills text"

definition set_order :: "(string list \<Rightarrow> string list) \<Rightarrow> bool" where
  \<comment> \<open>what Python promises of \<^verbatim>\<open>list(set(xs))\<close>: every element of \<open>xs\<close> once, in some order\<close>
  "set_order f = (\<forall>xs. distinct (f xs) \<and> set (f xs) = set xs)"

section \<open>Example inputs\<close>

text \<open>
  The scenarios A to D of the specification as inputs of the scorer: a candidate with the
  skill python, three years of experience and a bachelor's degree in computer science,
  against a job that asks for python and sql (python with priority), five years and a
  bachelor's degree in computer science. The library instance of the examples lists a set
  in the order of first occurrence and gives a section the similarity 1 when it is the
  text of the responsibilities and 0 otherwise; its string conversions are not used.
\<close>

definition example_lib :: pylib where
  "example_lib =
     \<lparr>str_of_value = (\<lambda>v. []), float_of_str = (\<lambda>s. None), int_of_str = (\<lambda>s. None),
      current_year = 2024, list_of_set = remdups,
      tfidf_cosine = (\<lambda>job sections. Some (map (\<lambda>section. if section = job then 1 else 0) sections))\<rparr>"

definition scenario_resume :: resume_data where
  "scenario_resume =
     \<lparr>r_skills = [''python''],
      r_experience =
        PList [PDict [(''title'', PStr ''Software Developer''), (''company'', PStr ''Acme''),
                      (''start_date'', PNone), (''end_date'', PNone), (''duration'', PNone),
                      (''years'', PNum 3)]],
      r_education =
        PList [PDict [(''degree'', PStr ''Bachelor''), (''field'', PStr ''Computer Science''),
                      (''year'', PStr ''2015'')]],
      r_raw_text = ''Software Developer at Acme, python''\<rparr>"

definition scenario_job :: job_analysis where
  "scenario_job =
     \<lparr>j_skills = [''python'', ''sql''],
      j_priority_skills = [''python''],
      j_experience =
        PDict [(''years'', PDict [(''min'', PNum 5), (''max'', PNone)]),
               (''level'', PStr ''Senior Level''),
               (''description'', PStr ''5+ years (Senior Level)'')],
      j_education = PList [PStr ''Bachelor degree in Computer Science''],
      j_responsibilities = [''Develop data pipelines in python'']\<rparr>"

section \<open>Well-formed inputs\<close>

text \<open>
  The inputs the data model of the specification admits, as far as the scores depend on
  it: the priority skills are a duplicate-free selection of the job skills, the resume's
  experience is a list of entries with a title and a number of years that is not negative,
  and the configuration has its three weights, all positive, and no negative priority
  bonus. Of the library the scores need that the cosine similarities of TF-IDF vectors,
  whose components are never negative, lie between 0 and 1.
\<close>

definition unit_interval :: "real \<Rightarrow> bool" where
  "unit_interval x = (0 \<le> x \<and> x \<le> 1)"

definition well_formed_entry :: "pyval \<Rightarrow> bool" where
  "well_formed_entry entry =
     (case entry of
        PDict e \<Rightarrow>
          (case map_of e ''title'' of Some (PStr title) \<Rightarrow> True | _ \<Rightarrow> False)
          \<and> (case map_of e ''years'' of Some (PNum years) \<Rightarrow> 0 \<le> years | _ \<Rightarrow> False)
      | _ \<Rightarrow> False)"

definition positive_weight :: "config \<Rightarrow> string \<Rightarrow> bool" where
  "positive_weight cfg k = (case cfg k of Some w \<Rightarrow> 0 < w | None \<Rightarrow> False)"

definition well_formed_inputs :: "resume_data \<Rightarrow> job_analysis \<Rightarrow> config \<Rightarrow> bool" where
  "well_formed_inputs resume job cfg =
     (distinct (j_priority_skills job)
      \<and> set (j_priority_skills job) \<subseteq> set (j_skills job)
      \<and> (case r_experience resume of
            PList entries \<Rightarrow> list_all well_formed_entry entries
          | _ \<Rightarrow> False)
      \<and> positive_weight cfg ''skill_weight''
      \<and> positive_weight cfg ''experience_weight''
      \<and> positive_weight cfg ''education_weight''
      \<and> 0 \<le> config_get cfg ''priority_skill_bonus'' 2.0)"

definition cosine_in_range :: "pylib \<Rightarrow> bool" where
  "cosine_in_range L =
     (\<forall>job sections similarities.
        tfidf_cosine L job sections = Some similarities \<longrightarrow> list_all unit_interval similarities)"

section \<open>Properties of the skill match\<close>

lemma split_skills_acc:
  "foldl (\<lambda>(matched, missing) skill.
            if P skill then (matched @ [skill], missing) else (matched, missing @ [skill]))
         (a, b) js
   = (a @ filter P js, b @ filter (\<lambda>s. \<not> P s) js)"
  by (induction js arbitrary: a b) auto

lemma split_skills_filter:
  "split_skills rsl js = (filter (skill_found rsl) js, filter (\<lambda>s. \<not> skill_found rsl s) js)"
  unfolding split_skills_def by (simp add: split_skills_acc)

lemma matched_skills_eq:
  "job_skills \<noteq> [] \<Longrightarrow>
   matched_skills (calculate_skill_match resume_skills job_skills priority_skills cfg)
     = filter (skill_found (map lower resume_skills)) job_skills"
  by (simp add: calculate_skill_match_def split_skills_filter Let_def)

lemma missing_skills_eq:
  "job_skills \<noteq> [] \<Longrightarrow>
   missing_skills (calculate_skill_match resume_skills job_skills priority_skills cfg)
     = filter (\<lambda>s. \<not> skill_found (map lower resume_skills) s) job_skills"
  by (simp add: calculate_skill_match_def split_skills_filter Let_def)

lemma priority_matched_eq:
  "job_skills \<noteq> [] \<Longrightarrow>
   priority_matched (calculate_skill_match resume_skills job_skills priority_skills cfg)
     = filter (\<lambda>s. lower s \<in> set (map lower resume_skills)) priority_skills"
  by (simp add: calculate_skill_match_def split_skills_filter Let_def)

lemma priority_missing_eq:
  "job_skills \<noteq> [] \<Longrightarrow>
   priority_missing (calculate_skill_match resume_skills job_skills priority_skills cfg)
     = filter (\<lambda>s. lower s \<notin> set (map lower resume_skills)) priority_skills"
  by (simp add: calculate_skill_match_def split_skills_filter Let_def)

lemma skill_found_iff:
  "skill_found (map lower resume_skills) skill
     \<longleftrightarrow> (\<exists>rs \<in> set resume_skills. lower skill = lower rs \<or> str_in (lower skill) (lower rs))"
  by (auto simp: skill_found_def Let_def list_ex_iff)

text \<open>
  Claim C1 (scenario A, priority-bonus saturation). With job skills python and sql, the
  priority skill python, the resume skill python and the default configuration, the skill
  match reports python as matched, sql as missing, a match percentage of 50 and the score
  1: the blend \<open>0.5 * (1 - 0.5) + 2.0 * 0.5 = 1.25\<close> of the base score and the priority
  term is clamped to 1.
\<close>

theorem scenario_priority_saturation:
  "matched_skills (calculate_skill_match [''python''] [''python'', ''sql''] [''python''] default_config)
     = [''python'']
   \<and> missing_skills (calculate_skill_match [''python''] [''python'', ''sql''] [''python''] default_config)
     = [''sql'']
   \<and> skill_match_percentage
       (calculate_skill_match [''python''] [''python'', ''sql''] [''python''] default_config) = 50
   \<and> score (calculate_skill_match [''python''] [''python'', ''sql''] [''python''] default_config) = 1
   \<and> priority_matched (calculate_skill_match [''python''] [''python'', ''sql''] [''python''] default_config)
     = [''python'']
   \<and> priority_missing (calculate_skill_match [''python''] [''python'', ''sql''] [''python''] default_config)
     = []
   \<and> config_get default_config ''priority_skill_bonus'' 2.0 = 2
   \<and> (1 / 2) * (1 - 1 / 2) + (1 / 1 * config_get default_config ''priority_skill_bonus'' 2.0) * (1 / 2)
       = 1.25
   \<and> min 1 (1.25 :: real) = 1"
  by code_simp

text \<open>
  Claim C7. For a non-empty list of job skills, \<^verbatim>\<open>matched_skills\<close> and
  \<^verbatim>\<open>missing_skills\<close> partition it: together they hold every job skill as often as the job
  list does, no skill is in both, and each keeps the order of the job list.
\<close>

theorem skill_partition:
  assumes "job_skills \<noteq> []"
  shows "mset (matched_skills (calculate_skill_match resume_skills job_skills priority_skills cfg))
           + mset (missing_skills (calculate_skill_match resume_skills job_skills priority_skills cfg))
           = mset job_skills
         \<and> set (matched_skills (calculate_skill_match resume_skills job_skills priority_skills cfg))
           \<inter> set (missing_skills (calculate_skill_match resume_skills job_skills priority_skills cfg))
           = {}
         \<and> subseq (matched_skills (calculate_skill_match resume_skills job_skills priority_skills cfg))
             job_skills
         \<and> subseq (missing_skills (calculate_skill_match resume_skills job_skills priority_skills cfg))
             job_skills"
  using assms by (auto simp: matched_skills_eq missing_skills_eq)

theorem skill_partition_witness:
  "[''Python'', ''sql'', ''java''] \<noteq> []
   \<and> matched_skills (calculate_skill_match [''python'', ''JAVA''] [''Python'', ''sql'', ''java''] [] default_config)
       = [''Python'', ''java'']
   \<and> missing_skills (calculate_skill_match [''python'', ''JAVA''] [''Python'', ''sql'', ''java''] [] default_config)
       = [''sql'']
   \<and> mset [''Python'', ''java''] + mset [''sql''] = mset [''Python'', ''sql'', ''java'']"
proof -
  have m: "matched_skills (calculate_skill_match [''python'', ''JAVA''] [''Python'', ''sql'', ''java''] [] default_config)
       = [''Python'', ''java'']"
    by code_simp
  have n: "missing_skills (calculate_skill_match [''python'', ''JAVA''] [''Python'', ''sql'', ''java''] [] default_config)
       = [''sql'']"
    by code_simp
  show ?thesis
    using skill_partition [of "[''Python'', ''sql'', ''java'']" "[''python'', ''JAVA'']" "[]" default_config]
    by (simp add: m n)
qed

text \<open>
  Claim C10. A job skill is matched when its lower-cased form equals a lower-cased resume
  skill or occurs inside one; a priority skill is priority-matched only when it equals one.
  So for the job and priority skill java and the resume skill javascript, java is in
  \<^verbatim>\<open>matched_skills\<close> and in \<^verbatim>\<open>priority_missing\<close> at once.
\<close>

theorem substring_match_exact_priority:
  assumes "job_skills \<noteq> []"
  shows "(skill \<in> set (matched_skills (calculate_skill_match resume_skills job_skills priority_skills cfg))
            \<longleftrightarrow> skill \<in> set job_skills
                \<and> (\<exists>rs \<in> set resume_skills. lower skill = lower rs \<or> str_in (lower skill) (lower rs)))
       \<and> (skill \<in> set (priority_matched (calculate_skill_match resume_skills job_skills priority_skills cfg))
            \<longleftrightarrow> skill \<in> set priority_skills \<and> (\<exists>rs \<in> set resume_skills. lower skill = lower rs))
       \<and> (skill \<in> set (priority_missing (calculate_skill_match resume_skills job_skills priority_skills cfg))
            \<longleftrightarrow> skill \<in> set priority_skills \<and> \<not> (\<exists>rs \<in> set resume_skills. lower skill = lower rs))
       \<and> ''java'' \<in> set (matched_skills (calculate_skill_match [''javascript''] [''java''] [''java''] cfg))
       \<and> ''java'' \<in> set (priority_missing (calculate_skill_match [''javascript''] [''java''] [''java''] cfg))"
proof -
  have m: "skill \<in> set (matched_skills (calculate_skill_match resume_skills job_skills priority_skills cfg))
            \<longleftrightarrow> skill \<in> set job_skills
                \<and> (\<exists>rs \<in> set resume_skills. lower skill = lower rs \<or> str_in (lower skill) (lower rs))"
    using assms by (simp add: matched_skills_eq skill_found_iff)
  have pm: "skill \<in> set (priority_matched (calculate_skill_match resume_skills job_skills priority_skills cfg))
            \<longleftrightarrow> skill \<in> set priority_skills \<and> (\<exists>rs \<in> set resume_skills. lower skill = lower rs)"
    using assms by (auto simp: priority_matched_eq)
  have pn: "skill \<in> set (priority_missing (calculate_skill_match resume_skills job_skills priority_skills cfg))
            \<longleftrightarrow> skill \<in> set priority_skills \<and> \<not> (\<exists>rs \<in> set resume_skills. lower skill = lower rs)"
    using assms by (auto simp: priority_missing_eq)
  have l: "lower ''java'' = ''java''" "lower ''javascript'' = ''javascript''"
    by code_simp+
  have j1: "''java'' \<in> set (matched_skills (calculate_skill_match [''javascript''] [''java''] [''java''] cfg))"
    by (simp add: matched_skills_eq skill_found_def l)
  have j2: "''java'' \<in> set (priority_missing (calculate_skill_match [''javascript''] [''java''] [''java''] cfg))"
    by (simp add: priority_missing_eq l)
  from m pm pn j1 j2 show ?thesis by blast
qed

theorem substring_match_exact_priority_witness:
  "[''java''] \<noteq> []
   \<and> ''java'' \<in> set (matched_skills (calculate_skill_match [''javascript''] [''java''] [''java''] default_config))
   \<and> ''java'' \<notin> set (priority_matched (calculate_skill_match [''javascript''] [''java''] [''java''] default_config))
   \<and> ''java'' \<in> set (priority_missing (calculate_skill_match [''javascript''] [''java''] [''java''] default_config))
   \<and> str_in (lower ''java'') (lower ''javascript'') \<and> lower ''java'' \<noteq> lower ''javascript''"
proof -
  have l: "lower ''java'' = ''java''" "lower ''javascript'' = ''javascript''"
    by code_simp+
  show ?thesis
    using substring_match_exact_priority
            [of "[''java'']" "''java''" "[''javascript'']" "[''java'']" default_config]
    by (simp add: l)
qed

text \<open>
  Claim C9. The legacy scorer \<^verbatim>\<open>calculate_skill_match_score\<close> of the text-analysis module
  returns 0 for an empty list of job skills, whatever the resume skills are, where
  \<^verbatim>\<open>calculate_skill_match\<close> of the matcher returns the score 1.
\<close>

theorem legacy_empty_job_skills:
  "calculate_skill_match_score [] resume_skills = 0
   \<and> score (calculate_skill_match resume_skills [] priority_skills cfg) = 1"
  by (simp add: calculate_skill_match_score_def calculate_skill_match_def)

section \<open>Properties of the degree match\<close>

lemma degree_hierarchy_range: "degree_hierarchy d = Some n \<Longrightarrow> 1 \<le> n \<and> n \<le> 4"
  by (auto simp: degree_hierarchy_def split: if_splits)

lemma degree_hierarchy_inj:
  "degree_hierarchy c = Some n \<Longrightarrow> degree_hierarchy r = Some n \<Longrightarrow> c = r"
  by (auto simp: degree_hierarchy_def split: if_splits)

lemma degree_score_formula:
  assumes r: "degree_hierarchy r = Some rl"
  shows "calculate_degree_match_score c r
           = (if rl \<le> degree_level c then 1 else real (degree_level c) / real rl)"
proof (cases "degree_hierarchy c")
  case None
  with r have "c \<noteq> r" by auto
  with None r degree_hierarchy_range[OF r] show ?thesis
    by (simp add: calculate_degree_match_score_def degree_level_def)
next
  case (Some cl)
  show ?thesis
  proof (cases "c = r")
    case True
    with r show ?thesis by (simp add: calculate_degree_match_score_def degree_level_def)
  next
    case False
    with Some r have "cl \<noteq> rl" using degree_hierarchy_inj by blast
    with Some r degree_hierarchy_range[OF r] degree_hierarchy_range[OF Some] False show ?thesis
      by (auto simp: calculate_degree_match_score_def degree_level_def Let_def)
  qed
qed

lemma degree_score_mono:
  assumes r: "degree_hierarchy r = Some rl" and le: "degree_level c1 \<le> degree_level c2"
  shows "calculate_degree_match_score c1 r \<le> calculate_degree_match_score c2 r"
proof -
  have pos: "0 < real rl" using degree_hierarchy_range[OF r] by simp
  show ?thesis
    using le pos by (auto simp: degree_score_formula[OF r] divide_right_mono)
qed

lemma degree_score_range:
  "0 \<le> calculate_degree_match_score c r \<and> calculate_degree_match_score c r \<le> 1"
  by (auto simp: calculate_degree_match_score_def Let_def)

text \<open>
  Claim C6. On the hierarchy associate 1, bachelor 2, master 3, doctorate 4, and for every
  recognized required degree: a candidate whose recognized degree is at or above the
  required level gets the credit 1, one below it gets the ratio of the two levels, and the
  credit never decreases when the candidate's level rises.
\<close>

theorem degree_credit_monotone:
  assumes "degree_hierarchy required = Some rl"
  shows "degree_level ''associate'' = 1 \<and> degree_level ''bachelor'' = 2
         \<and> degree_level ''master'' = 3 \<and> degree_level ''doctorate'' = 4
         \<and> (\<forall>c cl. degree_hierarchy c = Some cl \<longrightarrow>
               calculate_degree_match_score c required
                 = (if rl \<le> cl then 1 else real cl / real rl))
         \<and> (\<forall>c1 c2. degree_level c1 \<le> degree_level c2 \<longrightarrow>
               calculate_degree_match_score c1 required
                 \<le> calculate_degree_match_score c2 required)"
proof -
  have "degree_level ''associate'' = 1 \<and> degree_level ''bachelor'' = 2
         \<and> degree_level ''master'' = 3 \<and> degree_level ''doctorate'' = 4"
    by (simp add: degree_level_def degree_hierarchy_def)
  moreover have "\<forall>c cl. degree_hierarchy c = Some cl \<longrightarrow>
               calculate_degree_match_score c required
                 = (if rl \<le> cl then 1 else real cl / real rl)"
    by (simp add: degree_score_formula[OF assms] degree_level_def)
  moreover have "\<forall>c1 c2. degree_level c1 \<le> degree_level c2 \<longrightarrow>
               calculate_degree_match_score c1 required
                 \<le> calculate_degree_match_score c2 required"
    using degree_score_mono[OF assms] by blast
  ultimately show ?thesis by blast
qed

theorem degree_credit_monotone_witness:
  "degree_hierarchy ''master'' = Some 3
   \<and> calculate_degree_match_score ''doctorate'' ''master'' = 1
   \<and> calculate_degree_match_score ''master'' ''master'' = 1
   \<and> calculate_degree_match_score ''bachelor'' ''master'' = 2 / 3
   \<and> calculate_degree_match_score ''associate'' ''master'' = 1 / 3
   \<and> calculate_degree_match_score ''associate'' ''master''
       \<le> calculate_degree_match_score ''bachelor'' ''master''"
proof -
  have h: "degree_hierarchy ''master'' = Some 3" by (simp add: degree_hierarchy_def)
  have l: "degree_hierarchy ''doctorate'' = Some 4" "degree_hierarchy ''bachelor'' = Some 2"
    "degree_hierarchy ''associate'' = Some 1"
    by (simp_all add: degree_hierarchy_def)
  show ?thesis using degree_credit_monotone [OF h] h l by (simp add: degree_level_def)
qed

section \<open>Rounding\<close>

lemma round_half_even_ge: "of_int a \<le> y \<Longrightarrow> a \<le> round_half_even y"
proof -
  assume "of_int a \<le> y"
  then have "a \<le> \<lfloor>y\<rfloor>" by (simp add: le_floor_iff)
  then show ?thesis by (auto simp: round_half_even_def Let_def)
qed

lemma round_half_even_le: "y \<le> of_int b \<Longrightarrow> round_half_even y \<le> b"
proof (cases "y = of_int b")
  case True
  then show ?thesis by (simp add: round_half_even_def)
next
  case False
  assume "y \<le> of_int b"
  with False have "y < of_int b" by simp
  then have "\<lfloor>y\<rfloor> < b" by (simp add: floor_less_iff)
  then show ?thesis by (auto simp: round_half_even_def Let_def)
qed

lemma round_half_even_of_int: "round_half_even (of_int k) = k"
  by (simp add: round_half_even_def)

lemma py_round_nonneg: "0 \<le> x \<Longrightarrow> 0 \<le> py_round x n"
  using round_half_even_ge[of 0 "x * 10 ^ n"] by (simp add: py_round_def)

lemma py_round_le_one: "x \<le> 1 \<Longrightarrow> py_round x n \<le> 1"
proof -
  assume "x \<le> 1"
  then have "x * 10 ^ n \<le> of_int (10 ^ n)" by simp
  then have "round_half_even (x * 10 ^ n) \<le> 10 ^ n" by (rule round_half_even_le)
  then have "real_of_int (round_half_even (x * 10 ^ n)) \<le> 10 ^ n"
    by (metis of_int_le_iff of_int_numeral of_int_power)
  then show ?thesis by (simp add: py_round_def divide_le_eq_1)
qed

lemma py_round_one: "py_round 1 n = 1"
proof -
  have "(1::real) * 10 ^ n = of_int (10 ^ n)" by simp
  then have "round_half_even (1 * 10 ^ n) = 10 ^ n"
    using round_half_even_of_int[of "10 ^ n"] by presburger
  then show ?thesis by (simp add: py_round_def)
qed


section \<open>Properties of the experience match\<close>



text \<open>
  The year count of a range is the one the first pattern finds: in "3-5 years" it matches
  "5 years", so the requirement read from a range is its upper bound.
\<close>

lemma years_of_range: "years_from_text ''3-5 years'' = Some 5"
  by code_simp



text \<open>
  Claim C4. A category whose job side is empty scores 1 whatever the resume holds:
  \<^verbatim>\<open>calculate_skill_match\<close> for the empty list of job skills,
  \<^verbatim>\<open>calculate_experience_match\<close> for a job experience Python takes for false (the empty
  string, list or dictionary, \<^verbatim>\<open>None\<close>), and \<^verbatim>\<open>calculate_education_match\<close> for such a job
  education.
\<close>

theorem empty_requirements_full_score:
  assumes "\<not> truthy job_experience" and "\<not> truthy job_education"
  shows "score (calculate_skill_match resume_skills [] priority_skills cfg) = 1
         \<and> (\<exists>r. calculate_experience_match L resume_experience job_experience cfg = Inr r
                  \<and> score r = 1)
         \<and> score (calculate_education_match L resume_education job_education cfg) = 1"
  using assms
  by (simp add: calculate_skill_match_def calculate_experience_match_def
        calculate_education_match_def)

theorem empty_requirements_full_score_witness:
  "\<not> truthy (PStr []) \<and> \<not> truthy (PList [])
   \<and> score (calculate_skill_match [''python''] [] [''python''] default_config) = 1
   \<and> (\<exists>r. calculate_experience_match example_lib (r_experience scenario_resume) (PStr [])
             default_config = Inr r
           \<and> score r = 1)
   \<and> score (calculate_education_match example_lib (r_education scenario_resume) (PList [])
              default_config) = 1"
proof -
  have f: "\<not> truthy (PStr [])" "\<not> truthy (PList [])" by (simp_all add: truthy_def)
  from empty_requirements_full_score[OF f, of "[''python'']" "[''python'']" default_config
      example_lib "r_experience scenario_resume" "r_education scenario_resume"] f
  show ?thesis by simp
qed

section \<open>Properties of the overall score\<close>



lemma scenario_scores:
  "case calculate_match_score example_lib scenario_resume scenario_job None of
     Inl e \<Rightarrow> False
   | Inr rep \<Rightarrow> score (skill_report rep) = 1 \<and> score (experience_report rep) = 0.6
                \<and> score (education_report rep) = 1"
  by code_simp



section \<open>Properties of the skill extraction\<close>

lemma found_skills_example: "found_skills ''Python and SQL'' = [''python'', ''sql'']"
  by code_simp

lemma extract_skills_same_set:
  "set_order (list_of_set L) \<Longrightarrow>
   set (extract_skills L text) = set (found_skills text) \<and> distinct (extract_skills L text)"
  by (simp add: extract_skills_def set_order_def)

text \<open>
  Claim C8. \<^verbatim>\<open>extract_skills\<close> returns \<^verbatim>\<open>list(set(extracted_skills))\<close>, so the order of
  its result is the iteration order of a Python set of strings, which the code does not
  fix: on the text "Python and SQL" one admissible order gives python before sql, another
  sql before python. \<^verbatim>\<open>extract_skills_from_text\<close>, the same loop without the set, gives the
  vocabulary order.
\<close>

theorem extract_skills_order_unstable:
  "set_order remdups \<and> set_order (\<lambda>xs. rev (remdups xs))
   \<and> extract_skills (example_lib\<lparr>list_of_set := remdups\<rparr>) ''Python and SQL'' = [''python'', ''sql'']
   \<and> extract_skills (example_lib\<lparr>list_of_set := (\<lambda>xs. rev (remdups xs))\<rparr>) ''Python and SQL''
       = [''sql'', ''python'']
   \<and> extract_skills_from_text ''Python and SQL'' = [''python'', ''sql'']"
proof -
  have "set_order remdups" "set_order (\<lambda>xs. rev (remdups xs))"
    by (simp_all add: set_order_def)
  then show ?thesis
    by (simp add: extract_skills_def extract_skills_from_text_def found_skills_example)
qed

section \<open>All scores lie between 0 and 1\<close>

lemma py_round_unit: "unit_interval x \<Longrightarrow> unit_interval (py_round x n)"
  by (simp add: unit_interval_def py_round_nonneg py_round_le_one)

lemma ratio_unit: "a \<le> b \<Longrightarrow> unit_interval (real a / real b)"
  by (cases "b = 0") (simp_all add: unit_interval_def divide_le_eq_1)

lemma skill_score_range:
  assumes d: "distinct priority_skills" and sub: "set priority_skills \<subseteq> set job_skills"
    and b: "0 \<le> config_get cfg ''priority_skill_bonus'' 2.0"
  shows "unit_interval (score (calculate_skill_match resume_skills job_skills priority_skills cfg))"
proof (cases "job_skills = []")
  case True
  then show ?thesis by (simp add: calculate_skill_match_def unit_interval_def)
next
  case False
  let ?rsl = "map lower resume_skills"
  let ?m = "length (filter (skill_found ?rsl) job_skills)"
  let ?t = "length job_skills"
  let ?p = "length priority_skills"
  let ?pm = "length (filter (\<lambda>skill. lower skill \<in> set ?rsl) priority_skills)"
  let ?bonus = "config_get cfg ''priority_skill_bonus'' 2.0"
  let ?pms = "if priority_skills \<noteq> [] then real ?pm / real ?p * ?bonus else 0"
  let ?X = "real ?m / real ?t * (1 - real ?p / real ?t) + ?pms * (real ?p / real ?t)"
  have t: "0 < ?t" using False by simp
  have "card (set priority_skills) \<le> card (set job_skills)"
    using sub by (simp add: card_mono)
  then have pt: "?p \<le> ?t"
    using d distinct_card[of priority_skills] card_length[of job_skills] by linarith
  have base: "unit_interval (real ?m / real ?t)" by (rule ratio_unit) simp
  have pw: "unit_interval (real ?p / real ?t)" using pt by (rule ratio_unit)
  have pms: "0 \<le> ?pms" using b by simp
  have "0 \<le> real ?m / real ?t * (1 - real ?p / real ?t)"
    using base pw by (simp add: unit_interval_def)
  moreover have "0 \<le> ?pms * (real ?p / real ?t)"
    using pms pw unfolding unit_interval_def by (intro mult_nonneg_nonneg) auto
  ultimately have X: "0 \<le> ?X" by linarith
  have s: "score (calculate_skill_match resume_skills job_skills priority_skills cfg)
             = py_round (min 1 ?X) 2"
    using False t by (simp add: calculate_skill_match_def split_skills_filter Let_def)
  have "unit_interval (min 1 ?X)" using X by (simp add: unit_interval_def)
  then show ?thesis unfolding s by (rule py_round_unit)
qed

lemma well_formed_entry_iff:
  "well_formed_entry entry \<longleftrightarrow>
     (\<exists>e title years. entry = PDict e \<and> map_of e ''title'' = Some (PStr title)
        \<and> map_of e ''years'' = Some (PNum years) \<and> 0 \<le> years)"
proof (cases entry)
  case (PDict e)
  show ?thesis
  proof (cases "map_of e ''title''")
    case None
    with PDict show ?thesis by (simp add: well_formed_entry_def)
  next
    case t: (Some tv)
    show ?thesis
    proof (cases "map_of e ''years''")
      case None
      with PDict t show ?thesis by (cases tv) (simp_all add: well_formed_entry_def)
    next
      case (Some yv)
      with PDict t show ?thesis by (cases tv; cases yv) (simp_all add: well_formed_entry_def)
    qed
  qed
qed (simp_all add: well_formed_entry_def)

lemma well_formed_entryD:
  assumes "well_formed_entry entry"
  obtains e title years where "entry = PDict e" "map_of e ''title'' = Some (PStr title)"
    "map_of e ''years'' = Some (PNum years)" "0 \<le> years"
  using assms unfolding well_formed_entry_iff by blast

lemma entry_years_nonneg: "well_formed_entry entry \<Longrightarrow> 0 \<le> entry_years L entry"
  by (erule well_formed_entryD) (simp add: entry_years_def py_float_def)

lemma foldl_add_nonneg:
  "list_all (\<lambda>x. 0 \<le> f x) xs \<Longrightarrow> (0::real) \<le> a \<Longrightarrow> 0 \<le> foldl (\<lambda>total x. total + f x) a xs"
  by (induction xs arbitrary: a) auto

lemma total_years_nonneg:
  assumes "list_all well_formed_entry entries"
  shows "0 \<le> calculate_total_experience_years L (PList entries)"
proof -
  have "list_all (\<lambda>x. 0 \<le> entry_years L x) entries"
    using assms by (simp add: list_all_iff entry_years_nonneg)
  then have "0 \<le> foldl (\<lambda>total entry. total + entry_years L entry) 0 entries"
    by (rule foldl_add_nonneg) simp
  then show ?thesis
    by (simp add: calculate_total_experience_years_def py_round_nonneg)
qed

lemma seniority_levels_range: "(l, w) \<in> set seniority_levels \<Longrightarrow> 0 < w \<and> w \<le> 1"
  by (auto simp: seniority_levels_def)

lemma level_fold_range:
  assumes "\<forall>(l, w) \<in> set levels. 0 < w \<and> w \<le> 1" and "0 < s" and "s \<le> 1"
  shows "0 < foldl (\<lambda>seniority (level, weight). if P level then max seniority weight else seniority)
               s levels
         \<and> foldl (\<lambda>seniority (level, weight). if P level then max seniority weight else seniority)
               s levels \<le> (1::real)"
  using assms
proof (induction levels arbitrary: s)
  case Nil
  then show ?case by simp
next
  case (Cons x levels)
  obtain l w where x: "x = (l, w)" by (cases x)
  from Cons.prems x have w: "0 < w" "w \<le> 1" by auto
  have "0 < (if P l then max s w else s) \<and> (if P l then max s w else s) \<le> 1"
    using w Cons.prems by auto
  with Cons.IH[of "if P l then max s w else s"] Cons.prems x show ?case by simp
qed

lemma title_seniority_ok:
  assumes "list_all well_formed_entry entries" and "0 < s" and "s \<le> 1"
  shows "\<exists>r. title_seniority entries s = Inr r \<and> 0 < r \<and> r \<le> 1"
  using assms
proof (induction entries arbitrary: s)
  case Nil
  then show ?case by simp
next
  case (Cons entry entries)
  from Cons.prems have wf: "well_formed_entry entry" and rest: "list_all well_formed_entry entries"
    by simp_all
  from wf obtain e title where e: "entry = PDict e" "map_of e ''title'' = Some (PStr title)"
    by (rule well_formed_entryD)
  let ?s' = "foldl (\<lambda>seniority (level, weight).
                     if str_in level (lower title) then max seniority weight else seniority)
                   s seniority_levels"
  have "\<forall>(l, w) \<in> set seniority_levels. 0 < w \<and> w \<le> 1"
    using seniority_levels_range by blast
  from level_fold_range[OF this Cons.prems(2,3), of "\<lambda>level. str_in level (lower title)"]
  have "0 < ?s'" "?s' \<le> 1" by simp_all
  from Cons.IH[OF rest this] e show ?case by (simp add: dict_get_def)
qed

lemma job_seniority_range:
  "0 < (case find P seniority_levels of Some (level, weight) \<Rightarrow> weight | None \<Rightarrow> (0.5::real))"
proof (cases "find P seniority_levels")
  case None
  then show ?thesis by simp
next
  case (Some x)
  then have "x \<in> set seniority_levels" by (auto simp: find_Some_iff)
  with seniority_levels_range[of "fst x" "snd x"] Some show ?thesis
    by (cases x) simp
qed

lemma match_seniority_ok:
  assumes wf: "list_all well_formed_entry entries"
  shows "\<exists>s. match_seniority_level L (PList entries) je = Inr s \<and> unit_interval s"
proof -
  let ?total = "calculate_total_experience_years L (PList entries)"
  let ?rs = "if ?total \<ge> 10 then 1.0
             else if ?total \<ge> 8 then 0.9
             else if ?total \<ge> 5 then 0.8
             else if ?total \<ge> 3 then 0.6
             else if ?total \<ge> 1 then 0.4
             else (0.2::real)"
  let ?js = "case find (\<lambda>(level, weight). str_in level (case je of PStr s \<Rightarrow> lower s | _ \<Rightarrow> []))
                    seniority_levels of
               Some (level, weight) \<Rightarrow> weight
             | None \<Rightarrow> (0.5::real)"
  have rs: "0 < ?rs" "?rs \<le> 1" by auto
  from title_seniority_ok[OF wf rs] obtain r where
    r: "title_seniority entries ?rs = Inr r" "0 < r" "r \<le> 1" by blast
  have js: "0 < ?js" by (rule job_seniority_range)
  have "unit_interval (if r \<ge> ?js then 1 else if ?js > 0 then r / ?js else 1)"
    using r js by (auto simp: unit_interval_def divide_le_eq_1)
  with r show ?thesis
    by (simp add: match_seniority_level_def Let_def)
qed

lemma experience_score_range:
  assumes wf: "list_all well_formed_entry entries"
  shows "\<exists>r. calculate_experience_match L (PList entries) je cfg = Inr r \<and> unit_interval (score r)"
proof (cases "truthy je")
  case False
  then show ?thesis by (simp add: calculate_experience_match_def unit_interval_def)
next
  case True
  show ?thesis
  proof (cases "extract_years_from_experience L je")
    case None
    from match_seniority_ok[OF wf, of L je] obtain s where
      "match_seniority_level L (PList entries) je = Inr s" "unit_interval s" by blast
    with True None show ?thesis by (simp add: calculate_experience_match_def)
  next
    case (Some Y)
    let ?c = "calculate_total_experience_years L (PList entries)"
    have c: "0 \<le> ?c" using wf by (rule total_years_nonneg)
    have "unit_interval (if 0 < Y then (if ?c \<ge> real_of_int Y then 1 else ?c / real_of_int Y) else 1)"
      using c by (auto simp: unit_interval_def divide_le_eq_1)
    then have "unit_interval (py_round (if 0 < Y then (if ?c \<ge> real_of_int Y then 1 else ?c / real_of_int Y) else 1) 2)"
      by (rule py_round_unit)
    with True Some show ?thesis
      by (auto simp: calculate_experience_match_def Let_def py_round_one unit_interval_def
               split: if_splits)
  qed
qed

lemma blend_unit: "unit_interval a \<Longrightarrow> unit_interval b \<Longrightarrow> unit_interval (0.7 * a + 0.3 * b)"
  by (simp add: unit_interval_def)

lemma degree_loop_acc:
  "unit_interval a \<Longrightarrow>
   unit_interval (fst (foldl (\<lambda>(degree_match_score, matched_degrees) (req_degree, res_degree).
              let match_score = calculate_degree_match_score res_degree req_degree
              in if match_score > 0
                 then (max degree_match_score match_score, matched_degrees @ [req_degree])
                 else (degree_match_score, matched_degrees))
           (a, m) pairs))"
proof (induction pairs arbitrary: a m)
  case Nil
  then show ?case by simp
next
  case (Cons p pairs)
  obtain q s where p: "p = (q, s)" by (cases p)
  have "unit_interval (max a (calculate_degree_match_score s q))"
    using Cons.prems degree_score_range[of s q] by (auto simp: unit_interval_def)
  with Cons.IH Cons.prems p show ?case by (simp add: Let_def)
qed

lemma degree_loop_range: "unit_interval (fst (degree_loop required resume))"
  unfolding degree_loop_def by (rule degree_loop_acc) (simp add: unit_interval_def)

lemma field_loop_acc:
  "unit_interval a \<Longrightarrow>
   unit_interval (fst (foldl (\<lambda>(field_match_score, matched_fields) (req_field, res_field).
              if field_similarity res_field req_field \<ge> 0.7
              then (1, matched_fields @ [req_field])
              else (field_match_score, matched_fields))
           (a, m) pairs))"
proof (induction pairs arbitrary: a m)
  case Nil
  then show ?case by simp
next
  case (Cons p pairs)
  obtain q s where p: "p = (q, s)" by (cases p)
  have "unit_interval 1" by (simp add: unit_interval_def)
  with Cons.IH Cons.prems p show ?case by simp
qed

lemma field_loop_range: "unit_interval (fst (field_loop required resume))"
  unfolding field_loop_def by (rule field_loop_acc) (simp add: unit_interval_def)

lemma education_score_range:
  "unit_interval (score (calculate_education_match L resume_education job_education cfg))"
proof (cases "truthy job_education")
  case False
  then show ?thesis by (simp add: calculate_education_match_def unit_interval_def)
next
  case True
  let ?d = "fst (degree_loop (extract_degree_requirements L job_education)
                   (extract_degrees_from_resume L resume_education))"
  let ?fl = "fst (field_loop (extract_field_requirements L job_education)
                   (extract_fields_from_resume L resume_education))"
  let ?f = "if extract_field_requirements L job_education = [] then 1 else ?fl"
  have d: "unit_interval ?d" by (rule degree_loop_range)
  have fl: "unit_interval ?fl" by (rule field_loop_range)
  have f: "unit_interval ?f"
  proof (cases "extract_field_requirements L job_education = []")
    case True
    then show ?thesis by (simp add: unit_interval_def)
  next
    case False
    with fl show ?thesis by simp
  qed
  have "unit_interval (0.7 * ?d + 0.3 * ?f)"
    by (rule blend_unit[OF d f])
  then have "unit_interval (py_round (0.7 * ?d + 0.3 * ?f) 2)" by (rule py_round_unit)
  with True show ?thesis
    by (simp add: calculate_education_match_def Let_def split_beta)
qed

lemma density_score_range:
  "unit_interval (score (calculate_keyword_density resume_text job_keywords))"
proof -
  have z: "unit_interval (score zero_density)" by (simp add: zero_density_def unit_interval_def)
  define words where "words = re_findall word_pattern (lower resume_text)"
  define counts where "counts =
     foldl (\<lambda>counts keyword.
              let matches = re_findall (keyword_pattern (lower keyword)) (lower resume_text)
              in if matches \<noteq> [] then dict_set keyword (length matches) counts else counts)
           [] job_keywords"
  define d where "d = real (sum_list (map snd counts)) / real (length words)"
  define sections where "sections = re_split blank_line resume_text"
  define hit where "hit = (\<lambda>section. list_ex (\<lambda>keyword.
                       re_search (keyword_pattern (lower keyword)) (lower section) \<noteq> None) job_keywords)"
  define sh where "sh = (if sections \<noteq> [] then real (length (filter hit sections)) / real (length sections) else 0)"
  have e: "calculate_keyword_density resume_text job_keywords =
     (if resume_text = [] \<or> job_keywords = [] then zero_density
      else if length words = 0 then zero_density
      else \<lparr>score = py_round (0.7 * min (d * 50) 1 + 0.3 * sh) 2, keyword_count = counts,
            density = py_round (d * 100) 2, distribution = py_round (sh * 100) 2\<rparr>)"
    unfolding calculate_keyword_density_def words_def counts_def d_def sections_def hit_def sh_def
      Let_def
    by (rule refl)
  have d0: "0 \<le> d" by (simp add: d_def)
  have sh: "unit_interval sh"
    by (cases "sections = []") (simp_all add: sh_def unit_interval_def divide_le_eq_1)
  have "unit_interval (min (d * 50) 1)" using d0 by (simp add: unit_interval_def)
  then have "unit_interval (0.7 * min (d * 50) 1 + 0.3 * sh)" using sh by (rule blend_unit)
  then have "unit_interval (py_round (0.7 * min (d * 50) 1 + 0.3 * sh) 2)" by (rule py_round_unit)
  then show ?thesis unfolding e using z by simp
qed

lemma fold_max_range:
  "unit_interval a \<Longrightarrow> list_all unit_interval xs \<Longrightarrow> unit_interval (fold max xs a)"
proof (induction xs arbitrary: a)
  case Nil
  then show ?case by simp
next
  case (Cons x xs)
  from Cons.prems have "unit_interval (max x a)" by (simp add: unit_interval_def max_def)
  moreover from Cons.prems have "list_all unit_interval xs" by simp
  ultimately have "unit_interval (fold max xs (max x a))" by (rule Cons.IH)
  then show ?case by simp
qed

lemma sum_list_range:
  "list_all unit_interval xs \<Longrightarrow> 0 \<le> sum_list xs \<and> sum_list xs \<le> real (length xs)"
proof (induction xs)
  case Nil
  then show ?case by simp
next
  case (Cons x xs)
  from Cons.prems have ux: "unit_interval x" and r: "list_all unit_interval xs"
    by simp_all
  from ux have x: "0 \<le> x" "x \<le> 1" by (simp_all add: unit_interval_def)
  from Cons.IH[OF r] x show ?case by simp
qed

lemma similarity_score_range:
  assumes "cosine_in_range L"
  shows "unit_interval (score (calculate_content_similarity L resume_text responsibilities))"
proof -
  have z: "unit_interval 0" by (simp add: unit_interval_def)
  have k: "unit_interval (py_round (0.7 * (if sims \<noteq> [] then fold max sims (hd sims) else 0)
              + 0.3 * (if sims \<noteq> [] then sum_list sims / real (length sims) else 0)) 2)"
    if "list_all unit_interval sims" for sims
  proof (cases "sims = []")
    case True
    then show ?thesis using py_round_unit[OF blend_unit[OF z z]] by simp
  next
    case False
    then have "unit_interval (hd sims)" using that by (cases sims) simp_all
    then have m: "unit_interval (fold max sims (hd sims))" using that by (rule fold_max_range)
    have "unit_interval (sum_list sims / real (length sims))"
      using sum_list_range[OF that] False by (simp add: unit_interval_def divide_le_eq_1)
    from py_round_unit[OF blend_unit[OF m this]] False show ?thesis by simp
  qed
  show ?thesis
  proof (cases "resume_text = [] \<or> str_join '' '' responsibilities = []")
    case True
    then show ?thesis by (auto simp: calculate_content_similarity_def Let_def z)
  next
    case False
    show ?thesis
    proof (cases "tfidf_cosine L (str_join '' '' responsibilities) (re_split blank_line resume_text)")
      case None
      with False show ?thesis by (simp add: calculate_content_similarity_def Let_def z)
    next
      case (Some sims)
      with assms have "list_all unit_interval sims" unfolding cosine_in_range_def by blast
      from k[OF this] False Some show ?thesis
        by (simp add: calculate_content_similarity_def Let_def)
    qed
  qed
qed

lemma weighted_overall_range:
  assumes "positive_weight cfg ''skill_weight''" "positive_weight cfg ''experience_weight''"
    "positive_weight cfg ''education_weight''"
    and "unit_interval a" "unit_interval b" "unit_interval c"
  shows "\<exists>x. weighted_overall cfg a b c = Inr x \<and> unit_interval x"
proof -
  from assms(1-3) obtain ws we wd where
    w: "cfg ''skill_weight'' = Some ws" "cfg ''experience_weight'' = Some we"
       "cfg ''education_weight'' = Some wd" and p: "0 < ws" "0 < we" "0 < wd"
    by (auto simp: positive_weight_def split: option.splits)
  let ?n = "a * ws + b * we + c * wd" and ?s = "ws + we + wd"
  have s: "0 < ?s" using p by simp
  have a: "0 \<le> a * ws" "a * ws \<le> ws" using assms(4) p by (simp_all add: unit_interval_def mult_left_le_one_le)
  have b: "0 \<le> b * we" "b * we \<le> we" using assms(5) p by (simp_all add: unit_interval_def mult_left_le_one_le)
  have c: "0 \<le> c * wd" "c * wd \<le> wd" using assms(6) p by (simp_all add: unit_interval_def mult_left_le_one_le)
  have "0 \<le> ?n" "?n \<le> ?s" using a b c by linarith+
  then have "unit_interval (?n / ?s)" using s by (simp add: unit_interval_def divide_le_eq_1)
  then have "unit_interval (py_round (?n / ?s) 2)" by (rule py_round_unit)
  with w s show ?thesis by (simp add: weighted_overall_def config_item_def)
qed

text \<open>
  Claim C2. For well-formed inputs (and a library whose cosine similarities lie between 0
  and 1) \<^verbatim>\<open>calculate_match_score\<close> returns a report, and every score in it lies between
  0 and 1: the skill, experience, education, keyword-density and content-similarity
  scores and the overall score.
\<close>

theorem scores_in_unit_interval:
  assumes wf: "well_formed_inputs resume job (case config of None \<Rightarrow> default_config | Some c \<Rightarrow> c)"
    and lib: "cosine_in_range L"
  shows "\<exists>rep. calculate_match_score L resume job config = Inr rep
           \<and> unit_interval (score (skill_report rep))
           \<and> unit_interval (score (experience_report rep))
           \<and> unit_interval (score (education_report rep))
           \<and> unit_interval (score (density_report rep))
           \<and> unit_interval (score (similarity_report rep))
           \<and> unit_interval (overall_score rep)"
proof -
  let ?cfg = "case config of None \<Rightarrow> default_config | Some c \<Rightarrow> c"
  let ?sk = "calculate_skill_match (r_skills resume) (j_skills job) (j_priority_skills job) ?cfg"
  let ?ed = "calculate_education_match L (r_education resume) (j_education job) ?cfg"
  from wf obtain entries where
    e: "r_experience resume = PList entries" "list_all well_formed_entry entries"
    by (auto simp: well_formed_inputs_def split: pyval.splits)
  from wf have sk: "unit_interval (score ?sk)"
    by (intro skill_score_range) (simp_all add: well_formed_inputs_def)
  from experience_score_range[OF e(2), of L "j_experience job" ?cfg] e(1) obtain ex where
    ex: "calculate_experience_match L (r_experience resume) (j_experience job) ?cfg = Inr ex"
      "unit_interval (score ex)"
    by auto
  have ed: "unit_interval (score ?ed)" by (rule education_score_range)
  from wf have w: "positive_weight ?cfg ''skill_weight''" "positive_weight ?cfg ''experience_weight''"
    "positive_weight ?cfg ''education_weight''"
    by (simp_all add: well_formed_inputs_def)
  from weighted_overall_range[OF w sk ex(2) ed] obtain x where
    x: "weighted_overall ?cfg (score ?sk) (score ex) (score ?ed) = Inr x" "unit_interval x"
    by blast
  have "calculate_match_score L resume job config
          = Inr \<lparr>overall_score = x, ranking = fst (ranking_of x), percentile = snd (ranking_of x),
                 skill_report = ?sk, experience_report = ex, education_report = ?ed,
                 density_report = calculate_keyword_density (r_raw_text resume) (j_skills job),
                 similarity_report =
                   calculate_content_similarity L (r_raw_text resume) (j_responsibilities job)\<rparr>"
    using ex(1) x(1) by (simp add: calculate_match_score_def Let_def)
  with sk ex(2) ed x(2) density_score_range[of "r_raw_text resume" "j_skills job"]
    similarity_score_range[OF lib, of "r_raw_text resume" "j_responsibilities job"]
  show ?thesis by simp
qed

lemma scenario_well_formed: "well_formed_inputs scenario_resume scenario_job default_config"
  by code_simp

lemma example_lib_cosine: "cosine_in_range example_lib"
  by (simp add: cosine_in_range_def example_lib_def list_all_iff unit_interval_def) auto

lemma scenario_other_scores:
  "case calculate_match_score example_lib scenario_resume scenario_job None of
     Inl e \<Rightarrow> False
   | Inr rep \<Rightarrow> score (density_report rep) = 1 \<and> score (similarity_report rep) = 0
                \<and> overall_score rep = 0.88"
  by code_simp

theorem scores_in_unit_interval_witness:
  "well_formed_inputs scenario_resume scenario_job default_config
   \<and> cosine_in_range example_lib
   \<and> (\<exists>rep. calculate_match_score example_lib scenario_resume scenario_job None = Inr rep
         \<and> score (skill_report rep) = 1 \<and> score (experience_report rep) = 0.6
         \<and> score (education_report rep) = 1 \<and> score (density_report rep) = 1
         \<and> score (similarity_report rep) = 0 \<and> overall_score rep = 0.88
         \<and> unit_interval (score (skill_report rep))
         \<and> unit_interval (score (experience_report rep))
         \<and> unit_interval (score (education_report rep))
         \<and> unit_interval (score (density_report rep))
         \<and> unit_interval (score (similarity_report rep))
         \<and> unit_interval (overall_score rep))"
proof -
  have wf: "well_formed_inputs scenario_resume scenario_job
              (case None of None \<Rightarrow> default_config | Some c \<Rightarrow> c)"
    using scenario_well_formed by simp
  from scores_in_unit_interval[OF wf example_lib_cosine] obtain rep where
    r: "calculate_match_score example_lib scenario_resume scenario_job None = Inr rep"
    and u: "unit_interval (score (skill_report rep))"
      "unit_interval (score (experience_report rep))"
      "unit_interval (score (education_report rep))"
      "unit_interval (score (density_report rep))"
      "unit_interval (score (similarity_report rep))"
      "unit_interval (overall_score rep)"
    by blast
  from r scenario_scores scenario_other_scores
  have v: "score (skill_report rep) = 1" "score (experience_report rep) = 0.6"
    "score (education_report rep) = 1" "score (density_report rep) = 1"
    "score (similarity_report rep) = 0" "overall_score rep = 0.88"
    by simp_all
  from r u v scenario_well_formed example_lib_cosine show ?thesis by blast
qed

end
